theory Spec2Isabelle
  imports Complex_Main "HOL-Library.AList" "HOL-Library.Sublist"
begin

text \<open>
  A verification development for two components of the gateway: the skills tool
  (\<^verbatim>\<open>createSkillsTool\<close>, an action router that shapes a payload and issues one gateway
  call) and the schema endpoint (\<^verbatim>\<open>handleConfigSchemaHttpRequest\<close>, which serves the
  composed configuration schema). Both are embedded as functions on JavaScript values;
  exceptions are the left summand of a sum type, and the effects that matter (gateway calls
  issued, response written, collaborators invoked) are returned with the result.
\<close>

section \<open>JavaScript values\<close>

text \<open>
  The tool receives a loosely typed argument bag (\<^verbatim>\<open>Record<string, unknown>\<close>) and the
  handler serialises JSON documents, so both components work on JavaScript values. A number
  is a finite value or one of the three non-finite ones; the finite ones are kept as
  rationals, on which \<^verbatim>\<open>Math.floor\<close> and \<^verbatim>\<open>Math.max\<close> are exact, as they are on
  doubles. An object is its list of own properties in insertion order.
\<close>

datatype jsnum = Finite rat | NaN | PosInfinity | NegInfinity

datatype jsval =
    JUndefined
  | JNull
  | JBool bool
  | JNum jsnum
  | JStr string
  | JArr "jsval list"
  | JObj "(string \<times> jsval) list"

type_synonym jsobject = "(string \<times> jsval) list"

text \<open>\<^verbatim>\<open>typeof v\<close>.\<close>

fun js_typeof :: "jsval \<Rightarrow> string" where
  "js_typeof JUndefined = ''undefined''"
| "js_typeof JNull = ''object''"
| "js_typeof (JBool _) = ''boolean''"
| "js_typeof (JNum _) = ''number''"
| "js_typeof (JStr _) = ''string''"
| "js_typeof (JArr _) = ''object''"
| "js_typeof (JObj _) = ''object''"

text \<open>Truthiness, as \<^verbatim>\<open>if (v)\<close>, \<^verbatim>\<open>v && ...\<close> and \<^verbatim>\<open>v ? a : b\<close> test it.\<close>

fun truthy :: "jsval \<Rightarrow> bool" where
  "truthy JUndefined = False"
| "truthy JNull = False"
| "truthy (JBool b) = b"
| "truthy (JNum (Finite q)) = (q \<noteq> 0)"
| "truthy (JNum NaN) = False"
| "truthy (JNum PosInfinity) = True"
| "truthy (JNum NegInfinity) = True"
| "truthy (JStr s) = (s \<noteq> [])"
| "truthy (JArr _) = True"
| "truthy (JObj _) = True"

text \<open>\<^verbatim>\<open>Array.isArray(v)\<close>.\<close>

fun isArray :: "jsval \<Rightarrow> bool" where
  "isArray (JArr _) = True"
| "isArray _ = False"

text \<open>\<^verbatim>\<open>Number.isFinite(v)\<close>: false for every value that is not a number.\<close>

fun isFinite :: "jsval \<Rightarrow> bool" where
  "isFinite (JNum (Finite _)) = True"
| "isFinite _ = False"

text \<open>\<^verbatim>\<open>Math.floor\<close> and \<^verbatim>\<open>Math.max\<close> on numbers.\<close>

fun Math_floor :: "jsnum \<Rightarrow> jsnum" where
  "Math_floor (Finite q) = Finite (of_int \<lfloor>q\<rfloor>)"
| "Math_floor n = n"

fun Math_max :: "jsnum \<Rightarrow> jsnum \<Rightarrow> jsnum" where
  "Math_max NaN _ = NaN"
| "Math_max _ NaN = NaN"
| "Math_max PosInfinity _ = PosInfinity"
| "Math_max _ PosInfinity = PosInfinity"
| "Math_max NegInfinity n = n"
| "Math_max n NegInfinity = n"
| "Math_max (Finite a) (Finite b) = Finite (max a b)"

text \<open>Property read \<^verbatim>\<open>obj.k\<close>: \<^verbatim>\<open>undefined\<close> when the object has no such property.\<close>

definition get_prop :: "jsobject \<Rightarrow> string \<Rightarrow> jsval" where
  "get_prop obj k = (case map_of obj k of None \<Rightarrow> JUndefined | Some v \<Rightarrow> v)"

text \<open>
  Property write \<^verbatim>\<open>obj.k = v\<close>: an existing property keeps its place, a new one goes
  last.
\<close>

definition set_prop :: "jsobject \<Rightarrow> string \<Rightarrow> jsval \<Rightarrow> jsobject" where
  "set_prop obj k v = AList.update k v obj"

section \<open>The skills tool (action router)\<close>

subsection \<open>Helpers imported by the tool\<close>

text \<open>
  What an invocation can fail with: a parameter error of \<^verbatim>\<open>readStringParam\<close> (it carries
  the parameter's name), a plain \<^verbatim>\<open>Error\<close> with its message, or whatever the gateway
  call rejects with.
\<close>

datatype tool_error =
    ToolInputError string
  | JsError string
  | GatewayRejected string

record string_param_options =
  required :: bool
  trim :: bool

text \<open>
  Modelled from the spec: \<^verbatim>\<open>readStringParam\<close> of \<^verbatim>\<open>./common.js\<close> is imported by the tool
  and is not among the sources. The spec says that a required field that is missing or
  empty or white space only fails with a parameter error, and that an optional field counts
  only if a non-empty string was supplied. The options are the two the tool passes:
  \<^verbatim>\<open>required\<close> (off unless given) and \<^verbatim>\<open>trim\<close> (on unless given); with \<^verbatim>\<open>trim\<close> on the
  surrounding white space is removed before the emptiness test and from the result. The
  removal is the platform's \<^verbatim>\<open>String.prototype.trim\<close>, the parameter \<open>tr\<close>: a string is
  empty or white space only exactly when \<open>tr\<close> gives the empty string for it.
\<close>

definition readStringParam ::
  "(string \<Rightarrow> string) \<Rightarrow> jsobject \<Rightarrow> string \<Rightarrow> string_param_options
     \<Rightarrow> tool_error + string option" where
  "readStringParam tr params key options =
     (case get_prop params key of
        JStr raw \<Rightarrow>
          (let v = (if trim options then tr raw else raw) in
           if v = [] then (if required options then Inl (ToolInputError key) else Inr None)
           else Inr (Some v))
      | _ \<Rightarrow> (if required options then Inl (ToolInputError key) else Inr None))"

text \<open>
  Modelled from the spec: \<^verbatim>\<open>jsonResult\<close> of \<^verbatim>\<open>./common.js\<close> is not among the sources. The
  spec describes the output as a JSON-serialized result wrapping whatever the remote call
  returned.
\<close>

datatype tool_result = JsonResult jsval

definition jsonResult :: "jsval \<Rightarrow> tool_result" where
  "jsonResult v = JsonResult v"

subsection \<open>The gateway call\<close>

record gateway_call_options =
  gatewayUrl :: "string option"
  gatewayToken :: "string option"
  timeoutMs :: jsnum

text \<open>One remote call as the remote layer receives it: name, call options, payload.\<close>

record gateway_call =
  call_name :: string
  call_opts :: gateway_call_options
  call_payload :: jsobject

text \<open>
  The remote layer is a collaborator: given a name, the call options and a payload it
  returns a result or rejects with an error.
\<close>

type_synonym gateway = "string \<Rightarrow> gateway_call_options \<Rightarrow> jsobject \<Rightarrow> tool_error + jsval"

text \<open>
  An invocation yields the remote calls it issued, in order, and its result or the error it
  failed with.
\<close>

type_synonym 'a invocation = "gateway_call list \<times> (tool_error + 'a)"

definition callGatewayTool ::
  "gateway \<Rightarrow> string \<Rightarrow> gateway_call_options \<Rightarrow> jsobject \<Rightarrow> jsval invocation" where
  "callGatewayTool gw name opts payload =
     ([\<lparr>call_name = name, call_opts = opts, call_payload = payload\<rparr>], gw name opts payload)"

text \<open>\<^verbatim>\<open>jsonResult(await callGatewayTool(...))\<close>: a rejection propagates.\<close>

definition json_of_call :: "jsval invocation \<Rightarrow> tool_result invocation" where
  "json_of_call r = (case r of (calls, Inl e) \<Rightarrow> (calls, Inl e) | (calls, Inr v) \<Rightarrow> (calls, Inr (jsonResult v)))"

subsection \<open>execute\<close>

text \<open>The \<^verbatim>\<open>gatewayOpts\<close> object built at lines 47 to 51.\<close>

definition gatewayOpts :: "(string \<Rightarrow> string) \<Rightarrow> jsobject \<Rightarrow> tool_error + gateway_call_options" where
  "gatewayOpts tr params =
     (case readStringParam tr params ''gatewayUrl'' \<lparr>required = False, trim = False\<rparr> of
        Inl e \<Rightarrow> Inl e
      | Inr url \<Rightarrow>
          (case readStringParam tr params ''gatewayToken'' \<lparr>required = False, trim = False\<rparr> of
             Inl e \<Rightarrow> Inl e
           | Inr token \<Rightarrow>
               Inr \<lparr>gatewayUrl = url, gatewayToken = token,
                    timeoutMs = (case get_prop params ''timeoutMs'' of
                                   JNum n \<Rightarrow> n
                                 | _ \<Rightarrow> Finite 60000)\<rparr>))"

text \<open>The \<^verbatim>\<open>status\<close> case.\<close>

definition execute_status ::
  "(string \<Rightarrow> string) \<Rightarrow> gateway \<Rightarrow> gateway_call_options \<Rightarrow> jsobject
     \<Rightarrow> tool_result invocation" where
  "execute_status tr gw opts params =
     (case readStringParam tr params ''agentId'' \<lparr>required = False, trim = True\<rparr> of
        Inl e \<Rightarrow> ([], Inl e)
      | Inr agentId \<Rightarrow>
          (let statusParams =
                 (case agentId of
                    Some a \<Rightarrow> if truthy (JStr a) then set_prop [] ''agentId'' (JStr a) else []
                  | None \<Rightarrow> [])
           in json_of_call (callGatewayTool gw ''skills.status'' opts statusParams)))"

text \<open>The \<^verbatim>\<open>timeoutMs\<close> constant of the \<^verbatim>\<open>install\<close> case (lines 65 to 68).\<close>

definition install_timeoutMs :: "jsobject \<Rightarrow> jsval" where
  "install_timeoutMs params =
     (case get_prop params ''timeoutMs'' of
        JNum n \<Rightarrow>
          if isFinite (JNum n) then JNum (Math_max (Finite 1000) (Math_floor n)) else JUndefined
      | _ \<Rightarrow> JUndefined)"

text \<open>The \<^verbatim>\<open>install\<close> case.\<close>

definition execute_install ::
  "(string \<Rightarrow> string) \<Rightarrow> gateway \<Rightarrow> gateway_call_options \<Rightarrow> jsobject
     \<Rightarrow> tool_result invocation" where
  "execute_install tr gw opts params =
     (case readStringParam tr params ''name'' \<lparr>required = True, trim = True\<rparr> of
        Inl e \<Rightarrow> ([], Inl e)
      | Inr name \<Rightarrow>
          (case readStringParam tr params ''installId'' \<lparr>required = True, trim = True\<rparr> of
             Inl e \<Rightarrow> ([], Inl e)
           | Inr installId \<Rightarrow>
               (let t = install_timeoutMs params in
                json_of_call (callGatewayTool gw ''skills.install'' opts
                  ([(''name'', case name of Some s \<Rightarrow> JStr s | None \<Rightarrow> JUndefined),
                    (''installId'', case installId of Some s \<Rightarrow> JStr s | None \<Rightarrow> JUndefined)]
                   @ (if truthy t then [(''timeoutMs'', t)] else []))))))"

text \<open>The payload of the \<^verbatim>\<open>update\<close> case (lines 79 to 88).\<close>

definition update_payload :: "string option \<Rightarrow> jsobject \<Rightarrow> jsobject" where
  "update_payload skillKey params =
     (let payload = [(''skillKey'', case skillKey of Some s \<Rightarrow> JStr s | None \<Rightarrow> JUndefined)];
          payload = (if js_typeof (get_prop params ''enabled'') = ''boolean''
                     then set_prop payload ''enabled'' (get_prop params ''enabled'') else payload);
          payload = (if js_typeof (get_prop params ''apiKey'') = ''string''
                     then set_prop payload ''apiKey'' (get_prop params ''apiKey'') else payload);
          payload = (if truthy (get_prop params ''env'')
                        \<and> js_typeof (get_prop params ''env'') = ''object''
                        \<and> \<not> isArray (get_prop params ''env'')
                     then set_prop payload ''env'' (get_prop params ''env'') else payload)
      in payload)"

text \<open>The \<^verbatim>\<open>update\<close> case.\<close>

definition execute_update ::
  "(string \<Rightarrow> string) \<Rightarrow> gateway \<Rightarrow> gateway_call_options \<Rightarrow> jsobject
     \<Rightarrow> tool_result invocation" where
  "execute_update tr gw opts params =
     (case readStringParam tr params ''skillKey'' \<lparr>required = True, trim = True\<rparr> of
        Inl e \<Rightarrow> ([], Inl e)
      | Inr skillKey \<Rightarrow>
          json_of_call (callGatewayTool gw ''skills.update'' opts (update_payload skillKey params)))"

text \<open>The text a template literal gives for \<^verbatim>\<open>action\<close>, a string or \<^verbatim>\<open>undefined\<close>.\<close>

definition template_text :: "string option \<Rightarrow> string" where
  "template_text a = (case a of Some s \<Rightarrow> s | None \<Rightarrow> ''undefined'')"

text \<open>
  \<^verbatim>\<open>execute\<close>: read the action, build the call options, then dispatch on the action. The
  first parameter is the platform's \<^verbatim>\<open>String.prototype.trim\<close>, which the reads use.
\<close>

definition execute :: "(string \<Rightarrow> string) \<Rightarrow> gateway \<Rightarrow> jsobject \<Rightarrow> tool_result invocation" where
  "execute tr gw params =
     (case readStringParam tr params ''action'' \<lparr>required = True, trim = True\<rparr> of
        Inl e \<Rightarrow> ([], Inl e)
      | Inr action \<Rightarrow>
          (case gatewayOpts tr params of
             Inl e \<Rightarrow> ([], Inl e)
           | Inr opts \<Rightarrow>
               if action = Some ''status'' then execute_status tr gw opts params
               else if action = Some ''install'' then execute_install tr gw opts params
               else if action = Some ''update'' then execute_update tr gw opts params
               else if action = Some ''bins'' then
                 json_of_call (callGatewayTool gw ''skills.bins'' opts [])
               else ([], Inl (JsError (''Unknown action: '' @ template_text action)))))"

section \<open>The schema endpoint (request dispatcher)\<close>

subsection \<open>Requests, responses, thrown values\<close>

text \<open>
  A thrown value is an \<^verbatim>\<open>Error\<close> instance with its message, or some other value, kept as
  the text \<^verbatim>\<open>String\<close> gives for it.
\<close>

datatype thrown = ErrorInstance string | NonError string

text \<open>\<^verbatim>\<open>String(err instanceof Error ? err.message : err)\<close>.\<close>

fun error_text :: "thrown \<Rightarrow> string" where
  "error_text (ErrorInstance m) = m"
| "error_text (NonError s) = s"

text \<open>The two fields of \<^verbatim>\<open>IncomingMessage\<close> the handler reads; both may be undefined.\<close>

record request =
  req_method :: "string option"
  req_url :: "string option"

text \<open>
  The text \<^verbatim>\<open>JSON.stringify\<close> gives for a value is kept as the value itself;
  \<^verbatim>\<open>JSON.stringify(undefined)\<close> is \<^verbatim>\<open>undefined\<close>, no text.
\<close>

datatype json_text = JsonText jsval

definition JSON_stringify :: "jsval \<Rightarrow> json_text option" where
  "JSON_stringify v = (if v = JUndefined then None else Some (JsonText v))"

text \<open>
  \<^verbatim>\<open>ServerResponse\<close>: the status code, the headers set, the chunks of body written and
  whether \<^verbatim>\<open>end\<close> was called.
\<close>

record response =
  statusCode :: nat
  headers :: "(string \<times> string) list"
  body :: "json_text list"
  ended :: bool

text \<open>
  \<^verbatim>\<open>res.setHeader(name, value)\<close> replaces the header of that name (names are compared as
  written here).
\<close>

definition setHeader :: "response \<Rightarrow> string \<Rightarrow> string \<Rightarrow> response" where
  "setHeader res name v = res\<lparr>headers := AList.update name v (headers res)\<rparr>"

text \<open>\<^verbatim>\<open>res.end(data)\<close>; \<^verbatim>\<open>res.end()\<close> is \<open>end_response res None\<close>.\<close>

definition end_response :: "response \<Rightarrow> json_text option \<Rightarrow> response" where
  "end_response res d =
     res\<lparr>body := (case d of None \<Rightarrow> body res | Some t \<Rightarrow> body res @ [t]), ended := True\<rparr>"

definition SCHEMA_PATH :: string where
  "SCHEMA_PATH = ''/openclaw.schema.json''"

definition sendJson :: "response \<Rightarrow> nat \<Rightarrow> jsval \<Rightarrow> response" where
  "sendJson res status b =
     end_response
       (setHeader (res\<lparr>statusCode := status\<rparr>) ''Content-Type'' ''application/json; charset=utf-8'')
       (JSON_stringify b)"

subsection \<open>Collaborators\<close>

text \<open>What the plugin registry lists and what the handler passes on for each plugin.\<close>

record plugin =
  plugin_id :: string
  plugin_name :: string
  plugin_description :: "string option"
  plugin_configUiHints :: "jsval option"
  plugin_configJsonSchema :: "jsval option"

record plugin_arg =
  p_id :: string
  p_name :: string
  p_description :: "string option"
  p_configUiHints :: "jsval option"
  p_configSchema :: "jsval option"

definition plugin_arg_of :: "plugin \<Rightarrow> plugin_arg" where
  "plugin_arg_of pl =
     \<lparr>p_id = plugin_id pl, p_name = plugin_name pl, p_description = plugin_description pl,
      p_configUiHints = plugin_configUiHints pl, p_configSchema = plugin_configJsonSchema pl\<rparr>"

text \<open>What the channel lister returns and what the handler passes on for each channel.\<close>

record channel_meta =
  label :: string
  blurb :: "string option"

record channel_config_schema =
  schema :: "jsval option"
  uiHints :: "jsval option"

record channel_plugin =
  entry_id :: string
  meta :: channel_meta
  configSchema :: "channel_config_schema option"

record channel_arg =
  c_id :: string
  c_label :: string
  c_description :: "string option"
  c_configSchema :: "jsval option"
  c_configUiHints :: "jsval option"

definition channel_arg_of :: "channel_plugin \<Rightarrow> channel_arg" where
  "channel_arg_of entry =
     \<lparr>c_id = entry_id entry, c_label = label (meta entry), c_description = blurb (meta entry),
      c_configSchema = (case configSchema entry of None \<Rightarrow> None | Some cs \<Rightarrow> schema cs),
      c_configUiHints = (case configSchema entry of None \<Rightarrow> None | Some cs \<Rightarrow> uiHints cs)\<rparr>"

record url_record =
  pathname :: string
  search :: string

text \<open>
  The functions the handler calls and does not define: the platform's \<^verbatim>\<open>URL\<close>
  constructor (input and base), and the five imported collaborators. Each returns its
  value or throws; \<open>buildConfigSchema\<close> returns the \<^verbatim>\<open>schema\<close> field of its result.
\<close>

record 'cfg runtime =
  newURL :: "string \<Rightarrow> string \<Rightarrow> thrown + url_record"
  loadConfig :: "thrown + 'cfg"
  resolveDefaultAgentId :: "'cfg \<Rightarrow> thrown + string"
  resolveAgentWorkspaceDir :: "'cfg \<Rightarrow> string \<Rightarrow> thrown + string"
  loadOpenClawPlugins :: "'cfg \<Rightarrow> string \<Rightarrow> thrown + plugin list"
  listChannelPlugins :: "thrown + channel_plugin list"
  buildConfigSchema :: "plugin_arg list \<Rightarrow> channel_arg list \<Rightarrow> thrown + jsval"

datatype collaborator =
    LoadConfig
  | ResolveDefaultAgentId
  | ResolveAgentWorkspaceDir
  | LoadOpenClawPlugins
  | ListChannelPlugins
  | BuildConfigSchema

subsection \<open>The handler\<close>

text \<open>
  The body of the \<^verbatim>\<open>try\<close> block up to the schema (lines 38 to 65): the collaborators
  invoked, in order, and the schema or the value thrown.
\<close>

definition load_and_build :: "'cfg runtime \<Rightarrow> collaborator list \<times> (thrown + jsval)" where
  "load_and_build rt =
     (case loadConfig rt of
        Inl e \<Rightarrow> ([LoadConfig], Inl e)
      | Inr cfg \<Rightarrow>
     (case resolveDefaultAgentId rt cfg of
        Inl e \<Rightarrow> ([LoadConfig, ResolveDefaultAgentId], Inl e)
      | Inr agentId \<Rightarrow>
     (case resolveAgentWorkspaceDir rt cfg agentId of
        Inl e \<Rightarrow> ([LoadConfig, ResolveDefaultAgentId, ResolveAgentWorkspaceDir], Inl e)
      | Inr workspaceDir \<Rightarrow>
     (case loadOpenClawPlugins rt cfg workspaceDir of
        Inl e \<Rightarrow>
          ([LoadConfig, ResolveDefaultAgentId, ResolveAgentWorkspaceDir, LoadOpenClawPlugins],
           Inl e)
      | Inr plugins \<Rightarrow>
     (case listChannelPlugins rt of
        Inl e \<Rightarrow>
          ([LoadConfig, ResolveDefaultAgentId, ResolveAgentWorkspaceDir, LoadOpenClawPlugins,
            ListChannelPlugins], Inl e)
      | Inr channels \<Rightarrow>
          ([LoadConfig, ResolveDefaultAgentId, ResolveAgentWorkspaceDir, LoadOpenClawPlugins,
            ListChannelPlugins, BuildConfigSchema],
           buildConfigSchema rt (map plugin_arg_of plugins) (map channel_arg_of channels)))))))"

text \<open>
  What a call of the handler leaves behind: the value returned or the value thrown, the
  response object, and the collaborators invoked.
\<close>

record handler_outcome =
  returned :: "thrown + bool"
  res :: response
  invoked :: "collaborator list"

definition handleConfigSchemaHttpRequest ::
  "'cfg runtime \<Rightarrow> request \<Rightarrow> response \<Rightarrow> handler_outcome" where
  "handleConfigSchemaHttpRequest rt req res0 =
     (if req_method req \<noteq> Some ''GET'' \<and> req_method req \<noteq> Some ''HEAD''
      then \<lparr>returned = Inr False, res = res0, invoked = []\<rparr>
      else
        (case newURL rt (case req_url req of None \<Rightarrow> ''/'' | Some u \<Rightarrow> u) ''http://localhost'' of
           Inl e \<Rightarrow> \<lparr>returned = Inl e, res = res0, invoked = []\<rparr>
         | Inr u \<Rightarrow>
             if pathname u \<noteq> SCHEMA_PATH
             then \<lparr>returned = Inr False, res = res0, invoked = []\<rparr>
             else if req_method req = Some ''HEAD''
             then \<lparr>returned = Inr True,
                   res = end_response
                           (setHeader (res0\<lparr>statusCode := 200\<rparr>)
                              ''Content-Type'' ''application/json; charset=utf-8'')
                           None,
                   invoked = []\<rparr>
             else
               (case load_and_build rt of
                  (tr, Inr sch) \<Rightarrow>
                    \<lparr>returned = Inr True, res = sendJson res0 200 sch, invoked = tr\<rparr>
                | (tr, Inl e) \<Rightarrow>
                    \<lparr>returned = Inr True,
                     res = sendJson res0 500 (JObj [(''error'', JStr (error_text e))]),
                     invoked = tr\<rparr>)))"

section \<open>Schema composition\<close>

text \<open>
  \<^verbatim>\<open>buildConfigSchema\<close> of \<^verbatim>\<open>../config/schema.js\<close> is imported by the handler and is not
  among the sources. Every definition of this section is modelled from the spec's data
  model, descriptor normalizer and schema composer.
\<close>

text \<open>
  Modelled from the spec: the \<^verbatim>\<open>ExtensionContribution\<close> record of the data model, which
  the absent \<^verbatim>\<open>buildConfigSchema\<close> works on.
\<close>

record extension_contribution =
  contribution_id :: string
  displayName :: string
  description :: "string option"
  schemaFragment :: "jsval option"
  contribution_uiHints :: "jsval option"

text \<open>
  Modelled from the spec: the field renames of the descriptor normalizer, part of the absent
  \<^verbatim>\<open>buildConfigSchema\<close>, for a plugin descriptor and for a channel descriptor.
\<close>

definition contribution_of_plugin :: "plugin_arg \<Rightarrow> extension_contribution" where
  "contribution_of_plugin p =
     \<lparr>contribution_id = p_id p, displayName = p_name p, description = p_description p,
      schemaFragment = p_configSchema p, contribution_uiHints = p_configUiHints p\<rparr>"

definition contribution_of_channel :: "channel_arg \<Rightarrow> extension_contribution" where
  "contribution_of_channel c =
     \<lparr>contribution_id = c_id c, displayName = c_label c, description = c_description c,
      schemaFragment = c_configSchema c, contribution_uiHints = c_configUiHints c\<rparr>"

text \<open>
  Modelled from the spec: the descriptor normalizer, part of the absent
  \<^verbatim>\<open>buildConfigSchema\<close>. Plugin and channel descriptors become one ordered sequence of
  contributions, the fields renamed; a descriptor with an empty id is dropped.
\<close>

definition normalize :: "plugin_arg list \<Rightarrow> channel_arg list \<Rightarrow> extension_contribution list" where
  "normalize plugins channels =
     filter (\<lambda>c. contribution_id c \<noteq> [])
       (map contribution_of_plugin plugins @ map contribution_of_channel channels)"

text \<open>
  Modelled from the spec: the entry the composer, part of the absent
  \<^verbatim>\<open>buildConfigSchema\<close>, inserts for one contribution in the extensions namespace: the
  schema fragment, or the empty permissive fragment, with the metadata beside it.
\<close>

record namespaced_entry =
  entry_schema :: jsval
  entry_displayName :: string
  entry_description :: "string option"
  entry_uiHints :: "jsval option"

definition entry_of :: "extension_contribution \<Rightarrow> namespaced_entry" where
  "entry_of c =
     \<lparr>entry_schema = (case schemaFragment c of None \<Rightarrow> JObj [] | Some f \<Rightarrow> f),
      entry_displayName = displayName c, entry_description = description c,
      entry_uiHints = contribution_uiHints c\<rparr>"

text \<open>
  Modelled from the spec: the \<^verbatim>\<open>ComposedSchema\<close> of the data model, the result of the
  absent \<^verbatim>\<open>buildConfigSchema\<close>: the base schema and one entry for each contribution id.
\<close>

record composed_schema =
  base_schema :: jsval
  extensions :: "(string \<times> namespaced_entry) list"

text \<open>
  Modelled from the spec: the \<^verbatim>\<open>CompositionError\<close> of the error taxonomy, raised by the
  absent \<^verbatim>\<open>buildConfigSchema\<close>. It carries the id that collided, and its message names
  that id (the spec fixes no wording).
\<close>

datatype composition_error = CompositionError string

fun composition_message :: "composition_error \<Rightarrow> string" where
  "composition_message (CompositionError i) = ''duplicate contribution id: '' @ i"

text \<open>
  Modelled from the spec: the collision policy of the schema composer, part of the absent
  \<^verbatim>\<open>buildConfigSchema\<close>. Contributions are inserted in order under their ids; the first id
  that is already there stops the composition and is reported.
\<close>

fun insert_contributions ::
  "(string \<times> namespaced_entry) list \<Rightarrow> extension_contribution list
     \<Rightarrow> composition_error + (string \<times> namespaced_entry) list" where
  "insert_contributions ns [] = Inr ns"
| "insert_contributions ns (c # cs) =
     (if contribution_id c \<in> set (map fst ns) then Inl (CompositionError (contribution_id c))
      else insert_contributions (ns @ [(contribution_id c, entry_of c)]) cs)"

text \<open>
  Modelled from the spec: \<^verbatim>\<open>compose(base, contributions)\<close> of the schema composer, part of
  the absent \<^verbatim>\<open>buildConfigSchema\<close>.
\<close>

definition compose :: "jsval \<Rightarrow> extension_contribution list \<Rightarrow> composition_error + composed_schema" where
  "compose base cs =
     (case insert_contributions [] cs of
        Inl e \<Rightarrow> Inl e
      | Inr ns \<Rightarrow> Inr \<lparr>base_schema = base, extensions = ns\<rparr>)"

text \<open>
  Modelled from the spec: \<^verbatim>\<open>buildConfigSchema\<close> as the handler calls it, the normalizer
  followed by the composer; a collision is thrown as an error with the message above. The
  static base schema and the layout of the document are parameters (the spec fixes neither).
\<close>

definition buildConfigSchema_spec ::
  "jsval \<Rightarrow> (composed_schema \<Rightarrow> jsval) \<Rightarrow> plugin_arg list \<Rightarrow> channel_arg list \<Rightarrow> thrown + jsval" where
  "buildConfigSchema_spec base layout plugins channels =
     (case compose base (normalize plugins channels) of
        Inl e \<Rightarrow> Inl (ErrorInstance (composition_message e))
      | Inr s \<Rightarrow> Inr (layout s))"

section \<open>Auxiliary predicates and concrete instances\<close>

text \<open>
  The options the tool passes to \<^verbatim>\<open>readStringParam\<close> for a required parameter, and what
  the spec calls a field that is missing or empty or white space only: not a string, or a
  string for which the platform's trim \<open>tr\<close> gives the empty string.
\<close>

definition required_param :: string_param_options where
  "required_param = \<lparr>required = True, trim = True\<rparr>"

definition missing_or_blank :: "(string \<Rightarrow> string) \<Rightarrow> jsobject \<Rightarrow> string \<Rightarrow> bool" where
  "missing_or_blank tr params key =
     (case get_prop params key of JStr raw \<Rightarrow> tr raw = [] | _ \<Rightarrow> True)"

text \<open>
  An instance of \<^verbatim>\<open>String.prototype.trim\<close> for the examples: it strips the six ASCII
  white space and line terminator characters from both ends, which is what the platform
  does on a string of ASCII characters. (The platform strips the other Unicode white space
  too; the theorems below hold for every trim function and use this one only on ASCII
  strings.)
\<close>

definition is_ascii_white_space :: "char \<Rightarrow> bool" where
  "is_ascii_white_space c \<longleftrightarrow>
     c = CHR '' '' \<or> c = CHR 0x09 \<or> c = CHR 0x0A \<or> c = CHR 0x0B \<or> c = CHR 0x0C \<or> c = CHR 0x0D"

definition ascii_trim :: "string \<Rightarrow> string" where
  "ascii_trim s = rev (dropWhile is_ascii_white_space (rev (dropWhile is_ascii_white_space s)))"

text \<open>A gateway that answers every call with the payload it received.\<close>

definition echo_gateway :: gateway where
  "echo_gateway name opts payload = Inr (JObj payload)"

text \<open>
  An instance of the \<^verbatim>\<open>URL\<close> constructor for the examples. It throws on the input
  \<^verbatim>\<open>//\<close>, where the platform finds an empty host. Every other input it treats as a path
  with an optional query and fragment, resolved against the root; that is what the platform
  does for a request target that starts with one slash and is free of dot segments,
  backslashes and characters to escape.
\<close>

definition example_URL :: "string \<Rightarrow> string \<Rightarrow> thrown + url_record" where
  "example_URL input base =
     (if input = ''//'' then Inl (ErrorInstance ''Invalid URL'')
      else
        (let p = takeWhile (\<lambda>c. c \<noteq> CHR ''?'' \<and> c \<noteq> CHR ''#'') input;
             q = takeWhile (\<lambda>c. c \<noteq> CHR ''#'')
                   (dropWhile (\<lambda>c. c \<noteq> CHR ''?'' \<and> c \<noteq> CHR ''#'') input)
         in Inr \<lparr>pathname = (if take 1 p = ''/'' then p else ''/'' @ p),
                 search = (if q = ''?'' then [] else q)\<rparr>))"

definition example_layout :: "composed_schema \<Rightarrow> jsval" where
  "example_layout s =
     JObj [(''base'', base_schema s),
           (''extensions'', JObj (map (\<lambda>(i, e). (i, entry_schema e)) (extensions s)))]"

definition voice_plugin :: plugin where
  "voice_plugin =
     \<lparr>plugin_id = ''voice'', plugin_name = ''Voice'', plugin_description = None,
      plugin_configUiHints = None, plugin_configJsonSchema = Some (JObj [(''type'', JStr ''object'')])\<rparr>"

definition telegram_channel :: channel_plugin where
  "telegram_channel =
     \<lparr>entry_id = ''telegram'', meta = \<lparr>label = ''Telegram'', blurb = Some ''Telegram bot''\<rparr>,
      configSchema = None\<rparr>"

text \<open>A runtime in which every collaborator succeeds.\<close>

definition example_runtime :: "unit runtime" where
  "example_runtime =
     \<lparr>newURL = example_URL,
      loadConfig = Inr (),
      resolveDefaultAgentId = (\<lambda>cfg. Inr ''main''),
      resolveAgentWorkspaceDir = (\<lambda>cfg agentId. Inr ''/home/agent/workspace''),
      loadOpenClawPlugins = (\<lambda>cfg dir. Inr [voice_plugin]),
      listChannelPlugins = Inr [telegram_channel],
      buildConfigSchema = buildConfigSchema_spec (JObj []) example_layout\<rparr>"

text \<open>The same runtime with a configuration that does not load.\<close>

definition broken_config_runtime :: "unit runtime" where
  "broken_config_runtime = example_runtime\<lparr>loadConfig := Inl (ErrorInstance ''config not found'')\<rparr>"

text \<open>The same runtime with a plugin registry that lists one plugin twice.\<close>

definition duplicate_plugin_runtime :: "unit runtime" where
  "duplicate_plugin_runtime =
     example_runtime\<lparr>loadOpenClawPlugins := (\<lambda>cfg dir. Inr [voice_plugin, voice_plugin])\<rparr>"

text \<open>A response object nothing has been written to.\<close>

definition fresh_response :: response where
  "fresh_response = \<lparr>statusCode = 200, headers = [], body = [], ended = False\<rparr>"

section \<open>Properties of the skills tool\<close>

subsection \<open>Reading parameters and issuing calls\<close>

lemma readStringParam_optional:
  "\<exists>v. readStringParam tr params key \<lparr>required = False, trim = t\<rparr> = Inr v"
  by (simp add: readStringParam_def Let_def split: jsval.splits)

lemma gatewayOpts_returns:
  "\<exists>u t. gatewayOpts tr params =
     Inr \<lparr>gatewayUrl = u, gatewayToken = t,
          timeoutMs = (case get_prop params ''timeoutMs'' of JNum n \<Rightarrow> n | _ \<Rightarrow> Finite 60000)\<rparr>"
proof -
  obtain u where u: "readStringParam tr params ''gatewayUrl'' \<lparr>required = False, trim = False\<rparr> = Inr u"
    using readStringParam_optional by blast
  obtain t where t: "readStringParam tr params ''gatewayToken'' \<lparr>required = False, trim = False\<rparr> = Inr t"
    using readStringParam_optional by blast
  show ?thesis
    unfolding gatewayOpts_def by (simp add: u t)
qed

lemma fst_json_of_call: "fst (json_of_call (callGatewayTool gw name opts payload)) =
   [\<lparr>call_name = name, call_opts = opts, call_payload = payload\<rparr>]"
  by (simp add: json_of_call_def callGatewayTool_def split: sum.splits)

lemma snd_json_of_call: "snd (json_of_call (callGatewayTool gw name opts payload)) =
   (case gw name opts payload of Inl e \<Rightarrow> Inl e | Inr v \<Rightarrow> Inr (jsonResult v))"
  by (simp add: json_of_call_def callGatewayTool_def split: sum.splits)

lemma readStringParam_required:
  "readStringParam tr params key required_param =
     (if missing_or_blank tr params key then Inl (ToolInputError key)
      else Inr (Some (tr (case get_prop params key of JStr raw \<Rightarrow> raw | _ \<Rightarrow> []))))"
  by (simp add: readStringParam_def required_param_def missing_or_blank_def Let_def split: jsval.splits)

lemma execute_calls:
  "fst (execute tr gw params) = [] \<or>
   (\<exists>name opts payload. gatewayOpts tr params = Inr opts \<and>
      fst (execute tr gw params) = [\<lparr>call_name = name, call_opts = opts, call_payload = payload\<rparr>])"
proof -
  obtain opts where o: "gatewayOpts tr params = Inr opts"
    using gatewayOpts_returns by blast
  show ?thesis
    unfolding execute_def execute_status_def execute_install_def execute_update_def
    by (simp add: o fst_json_of_call Let_def split: sum.splits)
qed


lemma update_payload_lookup:
  "map_of (update_payload sk params) ''skillKey'' = Some (case sk of Some s \<Rightarrow> JStr s | None \<Rightarrow> JUndefined)"
  "map_of (update_payload sk params) ''enabled'' =
     (case get_prop params ''enabled'' of JBool b \<Rightarrow> Some (JBool b) | _ \<Rightarrow> None)"
  "map_of (update_payload sk params) ''apiKey'' =
     (case get_prop params ''apiKey'' of JStr s \<Rightarrow> Some (JStr s) | _ \<Rightarrow> None)"
  "map_of (update_payload sk params) ''env'' =
     (case get_prop params ''env'' of JObj kvs \<Rightarrow> Some (JObj kvs) | _ \<Rightarrow> None)"
  by (simp_all add: update_payload_def set_prop_def Let_def update_conv' split: jsval.splits jsnum.splits)

lemma execute_update_calls:
  assumes "readStringParam tr params ''action'' required_param = Inr (Some ''update'')"
      and "readStringParam tr params ''skillKey'' required_param = Inr (Some k)"
      and "gatewayOpts tr params = Inr opts"
  shows "execute tr gw params =
     json_of_call (callGatewayTool gw ''skills.update'' opts (update_payload (Some k) params))"
  using assms unfolding execute_def execute_update_def required_param_def by simp

lemma execute_install_calls:
  assumes "readStringParam tr params ''action'' required_param = Inr (Some ''install'')"
      and "readStringParam tr params ''name'' required_param = Inr (Some n)"
      and "readStringParam tr params ''installId'' required_param = Inr (Some i)"
      and "gatewayOpts tr params = Inr opts"
  shows "execute tr gw params =
     json_of_call (callGatewayTool gw ''skills.install'' opts
       ([(''name'', JStr n), (''installId'', JStr i)]
        @ (if truthy (install_timeoutMs params) then [(''timeoutMs'', install_timeoutMs params)] else [])))"
  using assms unfolding execute_def execute_install_def required_param_def by (simp add: Let_def)

lemma install_timeoutMs_finite:
  "get_prop params ''timeoutMs'' = JNum (Finite q) \<Longrightarrow>
     install_timeoutMs params = JNum (Finite (max 1000 (of_int \<lfloor>q\<rfloor>))) \<and> truthy (install_timeoutMs params)"
proof -
  assume t: "get_prop params ''timeoutMs'' = JNum (Finite q)"
  have "(1000::rat) \<le> max 1000 (of_int \<lfloor>q\<rfloor>)"
    by (rule max.cobounded1)
  then have "max 1000 (of_int \<lfloor>q\<rfloor>) \<noteq> (0::rat)"
    by linarith
  with t show ?thesis
    by (simp add: install_timeoutMs_def)
qed

lemma install_timeoutMs_other:
  "\<not> isFinite (get_prop params ''timeoutMs'') \<Longrightarrow> install_timeoutMs params = JUndefined"
  by (cases "get_prop params ''timeoutMs''") (simp_all add: install_timeoutMs_def)

text \<open>
  Claim C2. In the \<^verbatim>\<open>install\<close> case exactly one \<^verbatim>\<open>skills.install\<close> call is issued. When
  the caller's \<^verbatim>\<open>timeoutMs\<close> is a finite number, the payload carries it floored and
  raised to at least 1000; when it is absent or anything but a finite number, the payload
  has the name and the install id only.
\<close>

theorem install_timeoutMs_clamped:
  assumes "readStringParam tr params ''action'' required_param = Inr (Some ''install'')"
      and "readStringParam tr params ''name'' required_param = Inr (Some n)"
      and "readStringParam tr params ''installId'' required_param = Inr (Some i)"
  shows "\<exists>opts payload.
     gatewayOpts tr params = Inr opts \<and>
     fst (execute tr gw params) =
       [\<lparr>call_name = ''skills.install'', call_opts = opts, call_payload = payload\<rparr>] \<and>
     (\<forall>q. get_prop params ''timeoutMs'' = JNum (Finite q) \<longrightarrow>
        payload = [(''name'', JStr n), (''installId'', JStr i),
                   (''timeoutMs'', JNum (Finite (max 1000 (of_int \<lfloor>q\<rfloor>))))]) \<and>
     (\<not> isFinite (get_prop params ''timeoutMs'') \<longrightarrow>
        payload = [(''name'', JStr n), (''installId'', JStr i)])"
proof -
  obtain opts where o: "gatewayOpts tr params = Inr opts"
    using gatewayOpts_returns by blast
  let ?t = "install_timeoutMs params"
  let ?payload = "[(''name'', JStr n), (''installId'', JStr i)]
        @ (if truthy ?t then [(''timeoutMs'', ?t)] else [])"
  have calls: "fst (execute tr gw params) =
       [\<lparr>call_name = ''skills.install'', call_opts = opts, call_payload = ?payload\<rparr>]"
    by (simp only: execute_install_calls [OF assms o] fst_json_of_call)
  have fin: "\<forall>q. get_prop params ''timeoutMs'' = JNum (Finite q) \<longrightarrow>
        ?payload = [(''name'', JStr n), (''installId'', JStr i),
                   (''timeoutMs'', JNum (Finite (max 1000 (of_int \<lfloor>q\<rfloor>))))]"
  proof (intro allI impI)
    fix q
    assume "get_prop params ''timeoutMs'' = JNum (Finite q)"
    from install_timeoutMs_finite [OF this]
    show "?payload = [(''name'', JStr n), (''installId'', JStr i),
                   (''timeoutMs'', JNum (Finite (max 1000 (of_int \<lfloor>q\<rfloor>))))]"
      by simp
  qed
  have other: "\<not> isFinite (get_prop params ''timeoutMs'') \<longrightarrow>
        ?payload = [(''name'', JStr n), (''installId'', JStr i)]"
    using install_timeoutMs_other [of params] by simp
  from o calls fin other show ?thesis by blast
qed


lemmas read_simps = readStringParam_def required_param_def get_prop_def ascii_trim_def
  is_ascii_white_space_def Let_def

lemma gatewayOpts_default:
  "get_prop params ''gatewayUrl'' = JUndefined \<Longrightarrow> get_prop params ''gatewayToken'' = JUndefined \<Longrightarrow>
     gatewayOpts tr params =
       Inr \<lparr>gatewayUrl = None, gatewayToken = None,
            timeoutMs = (case get_prop params ''timeoutMs'' of JNum n \<Rightarrow> n | _ \<Rightarrow> Finite 60000)\<rparr>"
  by (simp add: gatewayOpts_def readStringParam_def)

text \<open>
  The values the install case computes for 5 and 2500.7, and for a string and an absent
  argument.
\<close>

lemma install_timeoutMs_examples:
  "install_timeoutMs [(''timeoutMs'', JNum (Finite 5))] = JNum (Finite 1000)"
  "install_timeoutMs [(''timeoutMs'', JNum (Finite (25007 / 10)))] = JNum (Finite 2500)"
  "install_timeoutMs [(''timeoutMs'', JStr ''x'')] = JUndefined"
  "install_timeoutMs [] = JUndefined"
  "install_timeoutMs [(''timeoutMs'', JNum PosInfinity)] = JUndefined"
  by (simp_all add: install_timeoutMs_def get_prop_def floor_eq_iff [THEN iffD2])

text \<open>With 2500.7 the payload carries 2500; with the string \<^verbatim>\<open>"x"\<close> it carries no timeout.\<close>

theorem install_timeoutMs_clamped_witness:
  "fst (execute ascii_trim echo_gateway
     [(''action'', JStr ''install''), (''name'', JStr ''ffmpeg''),
      (''installId'', JStr ''brew-ffmpeg''), (''timeoutMs'', JNum (Finite (25007 / 10)))]) =
     [\<lparr>call_name = ''skills.install'',
       call_opts = \<lparr>gatewayUrl = None, gatewayToken = None, timeoutMs = Finite (25007 / 10)\<rparr>,
       call_payload = [(''name'', JStr ''ffmpeg''), (''installId'', JStr ''brew-ffmpeg''),
                       (''timeoutMs'', JNum (Finite 2500))]\<rparr>]
   \<and> fst (execute ascii_trim echo_gateway
     [(''action'', JStr ''install''), (''name'', JStr ''ffmpeg''),
      (''installId'', JStr ''brew-ffmpeg''), (''timeoutMs'', JStr ''x'')]) =
     [\<lparr>call_name = ''skills.install'',
       call_opts = \<lparr>gatewayUrl = None, gatewayToken = None, timeoutMs = Finite 60000\<rparr>,
       call_payload = [(''name'', JStr ''ffmpeg''), (''installId'', JStr ''brew-ffmpeg'')]\<rparr>]"
proof -
  let ?p = "\<lambda>t. [(''action'', JStr ''install''), (''name'', JStr ''ffmpeg''),
      (''installId'', JStr ''brew-ffmpeg''), (''timeoutMs'', t)]"
  have a: "readStringParam ascii_trim (?p t) ''action'' required_param = Inr (Some ''install'')" for t
    by (simp add: read_simps)
  have n: "readStringParam ascii_trim (?p t) ''name'' required_param = Inr (Some ''ffmpeg'')" for t
    by (simp add: read_simps)
  have i: "readStringParam ascii_trim (?p t) ''installId'' required_param = Inr (Some ''brew-ffmpeg'')" for t
    by (simp add: read_simps)
  have g: "gatewayOpts ascii_trim (?p t) =
      Inr \<lparr>gatewayUrl = None, gatewayToken = None,
           timeoutMs = (case t of JNum n \<Rightarrow> n | _ \<Rightarrow> Finite 60000)\<rparr>" for t
    by (simp add: gatewayOpts_default get_prop_def)
  have t: "get_prop (?p t) ''timeoutMs'' = t" for t
    by (simp add: get_prop_def)
  have f: "max 1000 (of_int \<lfloor>25007 / 10 :: rat\<rfloor>) = (2500 :: rat)"
    by (simp add: floor_eq_iff [THEN iffD2])
  have fin: "fst (execute ascii_trim echo_gateway (?p (JNum (Finite (25007 / 10))))) =
     [\<lparr>call_name = ''skills.install'',
       call_opts = \<lparr>gatewayUrl = None, gatewayToken = None, timeoutMs = Finite (25007 / 10)\<rparr>,
       call_payload = [(''name'', JStr ''ffmpeg''), (''installId'', JStr ''brew-ffmpeg''),
                       (''timeoutMs'', JNum (Finite 2500))]\<rparr>]"
    using install_timeoutMs_clamped [OF a n i, of "JNum (Finite (25007 / 10))" echo_gateway]
    unfolding g t by (auto simp only: f sum.inject jsval.simps jsnum.simps)
  have other: "fst (execute ascii_trim echo_gateway (?p (JStr ''x''))) =
     [\<lparr>call_name = ''skills.install'',
       call_opts = \<lparr>gatewayUrl = None, gatewayToken = None, timeoutMs = Finite 60000\<rparr>,
       call_payload = [(''name'', JStr ''ffmpeg''), (''installId'', JStr ''brew-ffmpeg'')]\<rparr>]"
    using install_timeoutMs_clamped [OF a n i, of "JStr ''x''" echo_gateway]
    unfolding g t by (auto simp only: isFinite.simps sum.inject jsval.simps)
  from fin other show ?thesis
    by (rule conjI)
qed

subsection \<open>The update case\<close>

text \<open>
  Claim C1 says that \<^verbatim>\<open>update\<close> with an array for \<^verbatim>\<open>env\<close> fails validation and issues no
  remote call. It does not fail: with \<^verbatim>\<open>env: []\<close> the \<^verbatim>\<open>skills.update\<close> call is issued,
  with a payload that has the skill key only, and the invocation returns the gateway's
  answer.
\<close>

theorem update_env_array_counterexample:
  "execute ascii_trim echo_gateway
     [(''action'', JStr ''update''), (''skillKey'', JStr ''my-skill''), (''env'', JArr [])] =
   ([\<lparr>call_name = ''skills.update'',
      call_opts = \<lparr>gatewayUrl = None, gatewayToken = None, timeoutMs = Finite 60000\<rparr>,
      call_payload = [(''skillKey'', JStr ''my-skill'')]\<rparr>],
    Inr (JsonResult (JObj [(''skillKey'', JStr ''my-skill'')])))"
  by (simp add: execute_def execute_update_def update_payload_def gatewayOpts_def read_simps
      json_of_call_def callGatewayTool_def echo_gateway_def jsonResult_def)

lemma update_payload_env_array:
  assumes "get_prop params ''env'' = JArr xs"
  shows "update_payload sk params =
     [(''skillKey'', case sk of Some s \<Rightarrow> JStr s | None \<Rightarrow> JUndefined)]
     @ (case get_prop params ''enabled'' of JBool b \<Rightarrow> [(''enabled'', JBool b)] | _ \<Rightarrow> [])
     @ (case get_prop params ''apiKey'' of JStr s \<Rightarrow> [(''apiKey'', JStr s)] | _ \<Rightarrow> [])"
  using assms
  by (simp add: update_payload_def set_prop_def Let_def split: jsval.splits)

text \<open>
  Claim C1, amended. For \<^verbatim>\<open>update\<close> with an array for \<^verbatim>\<open>env\<close>, the guard at line 86 leaves
  \<^verbatim>\<open>env\<close> out of the payload and nothing fails: the single \<^verbatim>\<open>skills.update\<close> call is
  still issued, and the invocation returns what the gateway returns. The payload of that call
  is the skill key, then \<^verbatim>\<open>enabled\<close> when the argument is a boolean, then \<^verbatim>\<open>apiKey\<close> when
  the argument is a string, and nothing else.
\<close>

theorem update_env_array_omitted:
  assumes "readStringParam tr params ''action'' required_param = Inr (Some ''update'')"
      and "readStringParam tr params ''skillKey'' required_param = Inr (Some k)"
      and "get_prop params ''env'' = JArr xs"
  shows "\<exists>opts payload.
     gatewayOpts tr params = Inr opts \<and>
     execute tr gw params =
       ([\<lparr>call_name = ''skills.update'', call_opts = opts, call_payload = payload\<rparr>],
        case gw ''skills.update'' opts payload of Inl e \<Rightarrow> Inl e | Inr v \<Rightarrow> Inr (jsonResult v)) \<and>
     payload =
       [(''skillKey'', JStr k)]
       @ (case get_prop params ''enabled'' of JBool b \<Rightarrow> [(''enabled'', JBool b)] | _ \<Rightarrow> [])
       @ (case get_prop params ''apiKey'' of JStr s \<Rightarrow> [(''apiKey'', JStr s)] | _ \<Rightarrow> []) \<and>
     map_of payload ''skillKey'' = Some (JStr k) \<and>
     map_of payload ''enabled'' =
       (case get_prop params ''enabled'' of JBool b \<Rightarrow> Some (JBool b) | _ \<Rightarrow> None) \<and>
     map_of payload ''apiKey'' =
       (case get_prop params ''apiKey'' of JStr s \<Rightarrow> Some (JStr s) | _ \<Rightarrow> None) \<and>
     map_of payload ''env'' = None"
proof -
  obtain opts where o: "gatewayOpts tr params = Inr opts"
    using gatewayOpts_returns by blast
  let ?payload = "update_payload (Some k) params"
  have "execute tr gw params =
       ([\<lparr>call_name = ''skills.update'', call_opts = opts, call_payload = ?payload\<rparr>],
        case gw ''skills.update'' opts ?payload of Inl e \<Rightarrow> Inl e | Inr v \<Rightarrow> Inr (jsonResult v))"
    using execute_update_calls [OF assms(1,2) o, of gw] fst_json_of_call [of gw] snd_json_of_call [of gw]
    by (simp add: prod_eq_iff)
  moreover have "?payload =
       [(''skillKey'', JStr k)]
       @ (case get_prop params ''enabled'' of JBool b \<Rightarrow> [(''enabled'', JBool b)] | _ \<Rightarrow> [])
       @ (case get_prop params ''apiKey'' of JStr s \<Rightarrow> [(''apiKey'', JStr s)] | _ \<Rightarrow> [])"
    using update_payload_env_array [OF assms(3), of "Some k"] by simp
  moreover have "map_of ?payload ''skillKey'' = Some (JStr k)"
    by (simp add: update_payload_lookup)
  moreover have "map_of ?payload ''enabled'' =
       (case get_prop params ''enabled'' of JBool b \<Rightarrow> Some (JBool b) | _ \<Rightarrow> None)"
    by (rule update_payload_lookup)
  moreover have "map_of ?payload ''apiKey'' =
       (case get_prop params ''apiKey'' of JStr s \<Rightarrow> Some (JStr s) | _ \<Rightarrow> None)"
    by (rule update_payload_lookup)
  moreover have "map_of ?payload ''env'' = None"
    by (simp add: update_payload_lookup assms(3))
  ultimately show ?thesis
    using o by blast
qed

text \<open>
  The amended claim at \<^verbatim>\<open>env: []\<close> with \<^verbatim>\<open>enabled: true\<close>: the call is issued with the
  skill key and \<^verbatim>\<open>enabled\<close>.
\<close>

theorem update_env_array_omitted_witness:
  "get_prop [(''action'', JStr ''update''), (''skillKey'', JStr ''my-skill''),
             (''enabled'', JBool True), (''env'', JArr [])] ''env'' = JArr []
   \<and> execute ascii_trim echo_gateway
       [(''action'', JStr ''update''), (''skillKey'', JStr ''my-skill''),
        (''enabled'', JBool True), (''env'', JArr [])] =
       ([\<lparr>call_name = ''skills.update'',
          call_opts = \<lparr>gatewayUrl = None, gatewayToken = None, timeoutMs = Finite 60000\<rparr>,
          call_payload = [(''skillKey'', JStr ''my-skill''), (''enabled'', JBool True)]\<rparr>],
        Inr (JsonResult (JObj [(''skillKey'', JStr ''my-skill''), (''enabled'', JBool True)])))"
proof -
  let ?p = "[(''action'', JStr ''update''), (''skillKey'', JStr ''my-skill''),
             (''enabled'', JBool True), (''env'', JArr [])]"
  have a: "readStringParam ascii_trim ?p ''action'' required_param = Inr (Some ''update'')"
    by (simp add: read_simps)
  have k: "readStringParam ascii_trim ?p ''skillKey'' required_param = Inr (Some ''my-skill'')"
    by (simp add: read_simps)
  have e: "get_prop ?p ''env'' = JArr []"
    by (simp add: get_prop_def)
  have g: "gatewayOpts ascii_trim ?p =
      Inr \<lparr>gatewayUrl = None, gatewayToken = None, timeoutMs = Finite 60000\<rparr>"
    by (simp add: gatewayOpts_default get_prop_def)
  have f: "get_prop ?p ''enabled'' = JBool True" "get_prop ?p ''apiKey'' = JUndefined"
    by (simp_all add: get_prop_def)
  from update_env_array_omitted [OF a k e, of echo_gateway] obtain opts payload where
    o: "gatewayOpts ascii_trim ?p = Inr opts" and
    x: "execute ascii_trim echo_gateway ?p =
       ([\<lparr>call_name = ''skills.update'', call_opts = opts, call_payload = payload\<rparr>],
        case echo_gateway ''skills.update'' opts payload of
          Inl e \<Rightarrow> Inl e | Inr v \<Rightarrow> Inr (jsonResult v))" and
    p: "payload =
       [(''skillKey'', JStr ''my-skill'')]
       @ (case get_prop ?p ''enabled'' of JBool b \<Rightarrow> [(''enabled'', JBool b)] | _ \<Rightarrow> [])
       @ (case get_prop ?p ''apiKey'' of JStr s \<Rightarrow> [(''apiKey'', JStr s)] | _ \<Rightarrow> [])"
    by blast
  from o g have "opts = \<lparr>gatewayUrl = None, gatewayToken = None, timeoutMs = Finite 60000\<rparr>"
    by simp
  moreover from p have "payload = [(''skillKey'', JStr ''my-skill''), (''enabled'', JBool True)]"
    unfolding f by simp
  ultimately show ?thesis
    using x e by (simp add: echo_gateway_def jsonResult_def)
qed

text \<open>
  Claim C3. In the \<^verbatim>\<open>update\<close> case one \<^verbatim>\<open>skills.update\<close> call is issued, and its payload
  has \<^verbatim>\<open>enabled\<close> exactly when the argument is a boolean (with that boolean, also
  \<^verbatim>\<open>false\<close>), \<^verbatim>\<open>apiKey\<close> exactly when the argument is a string, and \<^verbatim>\<open>env\<close> exactly
  when the argument is an object that is not an array; the object is forwarded unchanged, so
  a payload without \<^verbatim>\<open>env\<close> differs from one whose \<^verbatim>\<open>env\<close> holds an empty string.
\<close>

theorem update_payload_fields:
  assumes "readStringParam tr params ''action'' required_param = Inr (Some ''update'')"
      and "readStringParam tr params ''skillKey'' required_param = Inr (Some k)"
  shows "\<exists>opts payload.
     gatewayOpts tr params = Inr opts \<and>
     fst (execute tr gw params) =
       [\<lparr>call_name = ''skills.update'', call_opts = opts, call_payload = payload\<rparr>] \<and>
     map_of payload ''skillKey'' = Some (JStr k) \<and>
     map_of payload ''enabled'' =
       (case get_prop params ''enabled'' of JBool b \<Rightarrow> Some (JBool b) | _ \<Rightarrow> None) \<and>
     map_of payload ''apiKey'' =
       (case get_prop params ''apiKey'' of JStr s \<Rightarrow> Some (JStr s) | _ \<Rightarrow> None) \<and>
     map_of payload ''env'' =
       (case get_prop params ''env'' of JObj kvs \<Rightarrow> Some (JObj kvs) | _ \<Rightarrow> None)"
proof -
  obtain opts where o: "gatewayOpts tr params = Inr opts"
    using gatewayOpts_returns by blast
  let ?payload = "update_payload (Some k) params"
  have "fst (execute tr gw params) =
       [\<lparr>call_name = ''skills.update'', call_opts = opts, call_payload = ?payload\<rparr>]"
    by (simp only: execute_update_calls [OF assms o] fst_json_of_call)
  with o update_payload_lookup [of "Some k" params] show ?thesis
    by (intro exI [of _ opts] exI [of _ ?payload]) simp
qed

text \<open>
  With \<^verbatim>\<open>enabled: false\<close> and \<^verbatim>\<open>env: { "X": "" }\<close> both reach the payload as given, and
  \<^verbatim>\<open>apiKey\<close> is absent.
\<close>

theorem update_payload_fields_witness:
  "\<exists>opts payload.
     fst (execute ascii_trim echo_gateway
       [(''action'', JStr ''update''), (''skillKey'', JStr ''my-skill''),
        (''enabled'', JBool False), (''env'', JObj [(''X'', JStr [])])]) =
       [\<lparr>call_name = ''skills.update'', call_opts = opts, call_payload = payload\<rparr>] \<and>
     map_of payload ''skillKey'' = Some (JStr ''my-skill'') \<and>
     map_of payload ''enabled'' = Some (JBool False) \<and>
     map_of payload ''apiKey'' = None \<and>
     map_of payload ''env'' = Some (JObj [(''X'', JStr [])])"
proof -
  let ?p = "[(''action'', JStr ''update''), (''skillKey'', JStr ''my-skill''),
        (''enabled'', JBool False), (''env'', JObj [(''X'', JStr [])])]"
  have a: "readStringParam ascii_trim ?p ''action'' required_param = Inr (Some ''update'')"
    by (simp add: read_simps)
  have k: "readStringParam ascii_trim ?p ''skillKey'' required_param = Inr (Some ''my-skill'')"
    by (simp add: read_simps)
  have g: "get_prop ?p ''enabled'' = JBool False" "get_prop ?p ''apiKey'' = JUndefined"
    "get_prop ?p ''env'' = JObj [(''X'', JStr [])]"
    by (simp_all add: get_prop_def)
  from update_payload_fields [OF a k, of echo_gateway] show ?thesis
    unfolding g by (simp only: jsval.case) blast
qed

subsection \<open>The call options\<close>

text \<open>
  Claim C6 says that the timeout of the call options is always greater than 0 and finite,
  and that non-finite values never appear there. Neither holds: with \<^verbatim>\<open>timeoutMs: -5\<close>
  the call is issued with a timeout of -5, with \<^verbatim>\<open>NaN\<close> it is issued with \<^verbatim>\<open>NaN\<close>, and
  with \<^verbatim>\<open>Infinity\<close> it is issued with \<^verbatim>\<open>Infinity\<close>.
\<close>

theorem gatewayOpts_timeoutMs_counterexample:
  "execute ascii_trim echo_gateway [(''action'', JStr ''bins''), (''timeoutMs'', JNum (Finite (- 5)))] =
   ([\<lparr>call_name = ''skills.bins'',
      call_opts = \<lparr>gatewayUrl = None, gatewayToken = None, timeoutMs = Finite (- 5)\<rparr>,
      call_payload = []\<rparr>],
    Inr (JsonResult (JObj [])))
   \<and> \<not> (0 :: rat) < - 5
   \<and> execute ascii_trim echo_gateway [(''action'', JStr ''bins''), (''timeoutMs'', JNum NaN)] =
   ([\<lparr>call_name = ''skills.bins'',
      call_opts = \<lparr>gatewayUrl = None, gatewayToken = None, timeoutMs = NaN\<rparr>,
      call_payload = []\<rparr>],
    Inr (JsonResult (JObj [])))
   \<and> \<not> isFinite (JNum NaN)
   \<and> execute ascii_trim echo_gateway [(''action'', JStr ''bins''), (''timeoutMs'', JNum PosInfinity)] =
   ([\<lparr>call_name = ''skills.bins'',
      call_opts = \<lparr>gatewayUrl = None, gatewayToken = None, timeoutMs = PosInfinity\<rparr>,
      call_payload = []\<rparr>],
    Inr (JsonResult (JObj [])))
   \<and> \<not> isFinite (JNum PosInfinity)"
  by (simp add: execute_def gatewayOpts_def read_simps
      json_of_call_def callGatewayTool_def echo_gateway_def jsonResult_def)

text \<open>
  Claim C6, amended. The call options are always built. Their timeout equals the caller's
  \<^verbatim>\<open>timeoutMs\<close> whenever that is a number: line 50 tests the type only, so zero, negative
  numbers, \<^verbatim>\<open>NaN\<close> and the infinities are passed on as supplied. It is 60000 when
  \<^verbatim>\<open>timeoutMs\<close> is absent or not a number. Every call the invocation issues carries these
  options.
\<close>

theorem gatewayOpts_timeoutMs:
  "\<exists>opts.
     gatewayOpts tr params = Inr opts \<and>
     (\<forall>n. get_prop params ''timeoutMs'' = JNum n \<longrightarrow> timeoutMs opts = n) \<and>
     (js_typeof (get_prop params ''timeoutMs'') \<noteq> ''number'' \<longrightarrow> timeoutMs opts = Finite 60000) \<and>
     (\<forall>c \<in> set (fst (execute tr gw params)). call_opts c = opts)"
proof -
  obtain u t where o: "gatewayOpts tr params =
     Inr \<lparr>gatewayUrl = u, gatewayToken = t,
          timeoutMs = (case get_prop params ''timeoutMs'' of JNum n \<Rightarrow> n | _ \<Rightarrow> Finite 60000)\<rparr>"
    (is "_ = Inr ?opts")
    using gatewayOpts_returns by blast
  have num: "\<forall>n. get_prop params ''timeoutMs'' = JNum n \<longrightarrow> timeoutMs ?opts = n"
    by simp
  have other: "js_typeof (get_prop params ''timeoutMs'') \<noteq> ''number'' \<longrightarrow> timeoutMs ?opts = Finite 60000"
    by (cases "get_prop params ''timeoutMs''") simp_all
  have calls: "\<forall>c \<in> set (fst (execute tr gw params)). call_opts c = ?opts"
    using execute_calls [of tr gw params] o by auto
  from o num other calls show ?thesis
    by blast
qed

text \<open>
  A supplied 2500 is kept, and so is \<^verbatim>\<open>NaN\<close>; a string is replaced by the default; the
  call of a \<^verbatim>\<open>bins\<close> invocation carries the options.
\<close>

theorem gatewayOpts_timeoutMs_witness:
  "(\<exists>opts. gatewayOpts ascii_trim [(''action'', JStr ''bins''), (''timeoutMs'', JNum (Finite 2500))] = Inr opts
      \<and> timeoutMs opts = Finite 2500
      \<and> fst (execute ascii_trim echo_gateway
              [(''action'', JStr ''bins''), (''timeoutMs'', JNum (Finite 2500))]) \<noteq> []
      \<and> call_opts (hd (fst (execute ascii_trim echo_gateway
              [(''action'', JStr ''bins''), (''timeoutMs'', JNum (Finite 2500))]))) = opts)
   \<and> (\<exists>opts. gatewayOpts ascii_trim [(''action'', JStr ''bins''), (''timeoutMs'', JNum NaN)] = Inr opts
      \<and> timeoutMs opts = NaN)
   \<and> (\<exists>opts. gatewayOpts ascii_trim [(''action'', JStr ''bins''), (''timeoutMs'', JStr ''soon'')] = Inr opts
      \<and> timeoutMs opts = Finite 60000)"
proof -
  let ?p = "\<lambda>t. [(''action'', JStr ''bins''), (''timeoutMs'', t)]"
  have g: "get_prop (?p t) ''timeoutMs'' = t" for t
    by (simp add: get_prop_def)
  have b: "js_typeof (get_prop (?p (JStr ''soon'')) ''timeoutMs'') \<noteq> ''number''"
    by (simp add: get_prop_def)
  have ne: "fst (execute ascii_trim echo_gateway (?p (JNum (Finite 2500)))) \<noteq> []"
    by (simp add: execute_def gatewayOpts_def read_simps json_of_call_def callGatewayTool_def
        echo_gateway_def)
  from gatewayOpts_timeoutMs
    [where tr = ascii_trim and gw = echo_gateway and params = "?p (JNum (Finite 2500))"]
    g [of "JNum (Finite 2500)"] ne
  have 1: "\<exists>opts. gatewayOpts ascii_trim (?p (JNum (Finite 2500))) = Inr opts
      \<and> timeoutMs opts = Finite 2500
      \<and> fst (execute ascii_trim echo_gateway (?p (JNum (Finite 2500)))) \<noteq> []
      \<and> call_opts (hd (fst (execute ascii_trim echo_gateway (?p (JNum (Finite 2500)))))) = opts"
    using hd_in_set [OF ne] by blast
  from gatewayOpts_timeoutMs
    [where tr = ascii_trim and gw = echo_gateway and params = "?p (JNum NaN)"] g [of "JNum NaN"]
  have 2: "\<exists>opts. gatewayOpts ascii_trim (?p (JNum NaN)) = Inr opts \<and> timeoutMs opts = NaN"
    by blast
  from gatewayOpts_timeoutMs
    [where tr = ascii_trim and gw = echo_gateway and params = "?p (JStr ''soon'')"] b
  have 3: "\<exists>opts. gatewayOpts ascii_trim (?p (JStr ''soon'')) = Inr opts
      \<and> timeoutMs opts = Finite 60000"
    by blast
  from 1 2 3 show ?thesis
    by blast
qed

subsection \<open>Validation\<close>

text \<open>
  Claim C7 says that an action outside the four literals fails with an unknown-action
  error. The empty string is outside the four literals and fails with the parameter error
  of a required field instead (still without a remote call).
\<close>

theorem blank_action_counterexample:
  "execute ascii_trim echo_gateway [(''action'', JStr [])] = ([], Inl (ToolInputError ''action''))
   \<and> [] \<notin> {''status'', ''install'', ''update'', ''bins''}"
  by (simp add: execute_def read_simps)

lemma execute_action_read:
  assumes "get_prop params ''action'' = JStr raw" and "tr raw \<noteq> []"
  shows "readStringParam tr params ''action'' required_param = Inr (Some (tr raw))"
  using assms by (simp add: readStringParam_def required_param_def Let_def)

text \<open>
  Claim C7, amended. An action that is a string, not blank, and outside the four literals
  once trimmed fails with the unknown-action error; an action that is missing, not a string
  or blank fails with a parameter error, as does \<^verbatim>\<open>install\<close> without a name or an install
  id and \<^verbatim>\<open>update\<close> without a skill key. In each case no remote call is issued. Trimming
  is the platform's \<^verbatim>\<open>String.prototype.trim\<close>, here any function \<open>tr\<close>, and a string is
  blank (empty or white space only) when \<open>tr\<close> gives the empty string for it.
\<close>

theorem validation_precedes_calls:
  "(\<forall>raw. get_prop params ''action'' = JStr raw \<and> tr raw \<noteq> [] \<and>
        tr raw \<notin> {''status'', ''install'', ''update'', ''bins''} \<longrightarrow>
        execute tr gw params = ([], Inl (JsError (''Unknown action: '' @ tr raw))))
   \<and> (missing_or_blank tr params ''action'' \<longrightarrow>
        execute tr gw params = ([], Inl (ToolInputError ''action'')))
   \<and> (\<forall>raw. get_prop params ''action'' = JStr raw \<and> tr raw = ''install'' \<longrightarrow>
        (missing_or_blank tr params ''name'' \<longrightarrow>
           execute tr gw params = ([], Inl (ToolInputError ''name''))) \<and>
        (\<not> missing_or_blank tr params ''name'' \<and> missing_or_blank tr params ''installId'' \<longrightarrow>
           execute tr gw params = ([], Inl (ToolInputError ''installId''))))
   \<and> (\<forall>raw. get_prop params ''action'' = JStr raw \<and> tr raw = ''update'' \<and>
        missing_or_blank tr params ''skillKey'' \<longrightarrow>
        execute tr gw params = ([], Inl (ToolInputError ''skillKey'')))"
proof -
  obtain opts where o: "gatewayOpts tr params = Inr opts"
    using gatewayOpts_returns by blast
  note rr = readStringParam_required [unfolded required_param_def]
  have unknown: "execute tr gw params = ([], Inl (JsError (''Unknown action: '' @ tr raw)))"
    if "get_prop params ''action'' = JStr raw" "tr raw \<noteq> []"
       "tr raw \<notin> {''status'', ''install'', ''update'', ''bins''}" for raw
    using that execute_action_read [where tr = tr, OF that(1,2)]
    by (simp add: execute_def o required_param_def template_text_def)
  have action: "execute tr gw params = ([], Inl (ToolInputError ''action''))"
    if "missing_or_blank tr params ''action''"
    using that by (simp add: execute_def rr)
  have install1: "execute tr gw params = ([], Inl (ToolInputError ''name''))"
    if "get_prop params ''action'' = JStr raw" "tr raw = ''install''"
       "missing_or_blank tr params ''name''" for raw
  proof -
    have "tr raw \<noteq> []" using that(2) by simp
    from execute_action_read [where tr = tr, OF that(1) this] that(2,3) show ?thesis
      by (simp add: execute_def o required_param_def execute_install_def rr)
  qed
  have install2: "execute tr gw params = ([], Inl (ToolInputError ''installId''))"
    if "get_prop params ''action'' = JStr raw" "tr raw = ''install''"
       "\<not> missing_or_blank tr params ''name''" "missing_or_blank tr params ''installId''" for raw
  proof -
    have "tr raw \<noteq> []" using that(2) by simp
    from execute_action_read [where tr = tr, OF that(1) this] that(2,3,4) show ?thesis
      by (simp add: execute_def o required_param_def execute_install_def rr)
  qed
  have update: "execute tr gw params = ([], Inl (ToolInputError ''skillKey''))"
    if "get_prop params ''action'' = JStr raw" "tr raw = ''update''"
       "missing_or_blank tr params ''skillKey''" for raw
  proof -
    have "tr raw \<noteq> []" using that(2) by simp
    from execute_action_read [where tr = tr, OF that(1) this] that(2,3) show ?thesis
      by (simp add: execute_def o required_param_def execute_update_def rr)
  qed
  from unknown action install1 install2 update show ?thesis
    by blast
qed

text \<open>One invocation for each way of failing.\<close>

theorem validation_precedes_calls_witness:
  "execute ascii_trim echo_gateway [(''action'', JStr ''restart'')] =
     ([], Inl (JsError ''Unknown action: restart''))
   \<and> execute ascii_trim echo_gateway [(''name'', JStr ''ffmpeg'')] = ([], Inl (ToolInputError ''action''))
   \<and> execute ascii_trim echo_gateway [(''action'', JStr ''install''), (''name'', JStr ''  '')] =
       ([], Inl (ToolInputError ''name''))
   \<and> execute ascii_trim echo_gateway [(''action'', JStr ''install''), (''name'', JStr ''ffmpeg'')] =
       ([], Inl (ToolInputError ''installId''))
   \<and> execute ascii_trim echo_gateway [(''action'', JStr ''update''), (''skillKey'', JNum (Finite 7))] =
       ([], Inl (ToolInputError ''skillKey''))"
proof -
  note ev = get_prop_def ascii_trim_def is_ascii_white_space_def missing_or_blank_def
  have 1: "execute ascii_trim echo_gateway [(''action'', JStr ''restart'')] =
     ([], Inl (JsError ''Unknown action: restart''))"
    using validation_precedes_calls [where tr = ascii_trim and gw = echo_gateway and params = "[(''action'', JStr ''restart'')]"]
    by (simp add: ev)
  have 2: "execute ascii_trim echo_gateway [(''name'', JStr ''ffmpeg'')] = ([], Inl (ToolInputError ''action''))"
    using validation_precedes_calls [where tr = ascii_trim and gw = echo_gateway and params = "[(''name'', JStr ''ffmpeg'')]"]
    by (simp add: ev)
  have 3: "execute ascii_trim echo_gateway [(''action'', JStr ''install''), (''name'', JStr ''  '')] =
       ([], Inl (ToolInputError ''name''))"
    using validation_precedes_calls
      [where tr = ascii_trim and gw = echo_gateway and params = "[(''action'', JStr ''install''), (''name'', JStr ''  '')]"]
    by (simp add: ev)
  have 4: "execute ascii_trim echo_gateway [(''action'', JStr ''install''), (''name'', JStr ''ffmpeg'')] =
       ([], Inl (ToolInputError ''installId''))"
    using validation_precedes_calls
      [where tr = ascii_trim and gw = echo_gateway and params = "[(''action'', JStr ''install''), (''name'', JStr ''ffmpeg'')]"]
    by (simp add: ev)
  have 5: "execute ascii_trim echo_gateway [(''action'', JStr ''update''), (''skillKey'', JNum (Finite 7))] =
       ([], Inl (ToolInputError ''skillKey''))"
    using validation_precedes_calls
      [where tr = ascii_trim and gw = echo_gateway and params = "[(''action'', JStr ''update''), (''skillKey'', JNum (Finite 7))]"]
    by (simp add: ev)
  from 1 2 3 4 5 show ?thesis
    by blast
qed

section \<open>Properties of schema composition\<close>

text \<open>
  Insertion stops at the first id that is already present: when the ids to insert, together
  with those present, are not distinct, the result is the error, and the id it reports
  occurs at least twice.
\<close>

lemma insert_contributions_duplicate:
  assumes "distinct (map fst ns)"
      and "\<not> distinct (map fst ns @ map contribution_id cs)"
  shows "\<exists>i. insert_contributions ns cs = Inl (CompositionError i) \<and>
             1 < count_list (map fst ns @ map contribution_id cs) i"
  using assms
proof (induction cs arbitrary: ns)
  case Nil
  then show ?case by simp
next
  case (Cons c cs)
  show ?case
  proof (cases "contribution_id c \<in> set (map fst ns)")
    case True
    then have "0 < count_list (map fst ns) (contribution_id c)"
      using count_list_0_iff [of "map fst ns" "contribution_id c"] by simp
    then have "1 < count_list (map fst ns @ map contribution_id (c # cs)) (contribution_id c)"
      by simp
    with True show ?thesis by simp
  next
    case False
    let ?ns = "ns @ [(contribution_id c, entry_of c)]"
    have eq: "map fst ?ns @ map contribution_id cs = map fst ns @ map contribution_id (c # cs)"
      by simp
    have d: "distinct (map fst ?ns)"
      using Cons.prems(1) False by simp
    have nd: "\<not> distinct (map fst ?ns @ map contribution_id cs)"
      using Cons.prems(2) unfolding eq .
    from Cons.IH [OF d nd] obtain i where
      "insert_contributions ?ns cs = Inl (CompositionError i)"
      "1 < count_list (map fst ?ns @ map contribution_id cs) i"
      by blast
    with False show ?thesis
      unfolding eq by auto
  qed
qed

lemma compose_duplicate:
  assumes "\<not> distinct (map contribution_id cs)"
  shows "\<exists>i. compose base cs = Inl (CompositionError i) \<and> 1 < count_list (map contribution_id cs) i"
  using insert_contributions_duplicate [of "[]" cs] assms
  by (auto simp add: compose_def)

section \<open>Properties of the schema endpoint\<close>

subsection \<open>The GET branch\<close>

lemma load_and_build_success:
  assumes "loadConfig rt = Inr cfg"
      and "resolveDefaultAgentId rt cfg = Inr a"
      and "resolveAgentWorkspaceDir rt cfg a = Inr d"
      and "loadOpenClawPlugins rt cfg d = Inr plugins"
      and "listChannelPlugins rt = Inr channels"
  shows "load_and_build rt =
     ([LoadConfig, ResolveDefaultAgentId, ResolveAgentWorkspaceDir, LoadOpenClawPlugins,
       ListChannelPlugins, BuildConfigSchema],
      buildConfigSchema rt (map plugin_arg_of plugins) (map channel_arg_of channels))"
  using assms by (simp add: load_and_build_def)

lemma get_request_outcome:
  assumes "req_method req = Some ''GET''"
      and "newURL rt (case req_url req of None \<Rightarrow> ''/'' | Some t \<Rightarrow> t) ''http://localhost'' = Inr u"
      and "pathname u = SCHEMA_PATH"
  shows "handleConfigSchemaHttpRequest rt req res0 =
     (case load_and_build rt of
        (tr, Inr sch) \<Rightarrow> \<lparr>returned = Inr True, res = sendJson res0 200 sch, invoked = tr\<rparr>
      | (tr, Inl e) \<Rightarrow>
          \<lparr>returned = Inr True,
           res = sendJson res0 500 (JObj [(''error'', JStr (error_text e))]),
           invoked = tr\<rparr>)"
  using assms by (simp add: handleConfigSchemaHttpRequest_def)

lemma sendJson_fields:
  "statusCode (sendJson r st b) = st"
  "map_of (headers (sendJson r st b)) ''Content-Type'' = Some ''application/json; charset=utf-8''"
  "body (sendJson r st b) = (case JSON_stringify b of None \<Rightarrow> body r | Some t \<Rightarrow> body r @ [t])"
  "ended (sendJson r st b)"
  by (simp_all add: sendJson_def end_response_def setHeader_def update_conv' split: option.splits)

text \<open>
  Claim C4. When two contributions share an id, \<open>compose\<close> fails with the composition
  error of an id that occurs at least twice, the message names that id, and there is no
  composed schema. When the handler's \<^verbatim>\<open>buildConfigSchema\<close> is this composition and the
  descriptors found in a GET request collide, the response has status 500 and its body is
  the error object with that message, and nothing else.
\<close>

theorem duplicate_id_fails_composition:
  "(\<not> distinct (map contribution_id cs) \<longrightarrow>
      (\<exists>i. compose base cs = Inl (CompositionError i) \<and>
           1 < count_list (map contribution_id cs) i \<and>
           suffix i (composition_message (CompositionError i))) \<and>
      (\<forall>s. compose base cs \<noteq> Inr s))
   \<and> (req_method req = Some ''GET'' \<and>
       newURL rt (case req_url req of None \<Rightarrow> ''/'' | Some t \<Rightarrow> t) ''http://localhost'' = Inr u \<and>
       pathname u = SCHEMA_PATH \<and>
       loadConfig rt = Inr cfg \<and>
       resolveDefaultAgentId rt cfg = Inr a \<and>
       resolveAgentWorkspaceDir rt cfg a = Inr d \<and>
       loadOpenClawPlugins rt cfg d = Inr plugins \<and>
       listChannelPlugins rt = Inr channels \<and>
       buildConfigSchema rt = buildConfigSchema_spec base layout \<and>
       \<not> distinct (map contribution_id
             (normalize (map plugin_arg_of plugins) (map channel_arg_of channels))) \<longrightarrow>
       (\<exists>i. 1 < count_list (map contribution_id
                  (normalize (map plugin_arg_of plugins) (map channel_arg_of channels))) i \<and>
            returned (handleConfigSchemaHttpRequest rt req res0) = Inr True \<and>
            statusCode (res (handleConfigSchemaHttpRequest rt req res0)) = 500 \<and>
            body (res (handleConfigSchemaHttpRequest rt req res0)) =
              body res0 @
              [JsonText (JObj [(''error'', JStr (composition_message (CompositionError i)))])]))"
proof (intro conjI impI)
  assume nd: "\<not> distinct (map contribution_id cs)"
  from compose_duplicate [OF nd, of base] obtain i where
    i: "compose base cs = Inl (CompositionError i)" "1 < count_list (map contribution_id cs) i"
    by blast
  have "suffix i (composition_message (CompositionError i))"
    by (simp add: suffix_def)
  with i show "\<exists>i. compose base cs = Inl (CompositionError i) \<and>
           1 < count_list (map contribution_id cs) i \<and>
           suffix i (composition_message (CompositionError i))"
    by blast
  from i show "\<forall>s. compose base cs \<noteq> Inr s"
    by simp
next
  let ?cs = "normalize (map plugin_arg_of plugins) (map channel_arg_of channels)"
  let ?h = "handleConfigSchemaHttpRequest rt req res0"
  assume h: "req_method req = Some ''GET'' \<and>
       newURL rt (case req_url req of None \<Rightarrow> ''/'' | Some t \<Rightarrow> t) ''http://localhost'' = Inr u \<and>
       pathname u = SCHEMA_PATH \<and>
       loadConfig rt = Inr cfg \<and>
       resolveDefaultAgentId rt cfg = Inr a \<and>
       resolveAgentWorkspaceDir rt cfg a = Inr d \<and>
       loadOpenClawPlugins rt cfg d = Inr plugins \<and>
       listChannelPlugins rt = Inr channels \<and>
       buildConfigSchema rt = buildConfigSchema_spec base layout \<and>
       \<not> distinct (map contribution_id ?cs)"
  then have nd: "\<not> distinct (map contribution_id ?cs)"
    by blast
  from compose_duplicate [OF nd, of base] obtain i where
    i: "compose base ?cs = Inl (CompositionError i)" "1 < count_list (map contribution_id ?cs) i"
    by blast
  have b: "buildConfigSchema rt (map plugin_arg_of plugins) (map channel_arg_of channels) =
      Inl (ErrorInstance (composition_message (CompositionError i)))"
    using h i(1) by (simp add: buildConfigSchema_spec_def)
  have l: "load_and_build rt =
     ([LoadConfig, ResolveDefaultAgentId, ResolveAgentWorkspaceDir, LoadOpenClawPlugins,
       ListChannelPlugins, BuildConfigSchema],
      Inl (ErrorInstance (composition_message (CompositionError i))))"
    using load_and_build_success [of rt cfg a d plugins channels] h b by simp
  have out: "?h = \<lparr>returned = Inr True,
       res = sendJson res0 500
               (JObj [(''error'', JStr (composition_message (CompositionError i)))]),
       invoked = [LoadConfig, ResolveDefaultAgentId, ResolveAgentWorkspaceDir,
                  LoadOpenClawPlugins, ListChannelPlugins, BuildConfigSchema]\<rparr>"
    using get_request_outcome [of req rt u res0] h l by simp
  have "returned ?h = Inr True" "statusCode (res ?h) = 500"
    "body (res ?h) = body res0 @
        [JsonText (JObj [(''error'', JStr (composition_message (CompositionError i)))])]"
    unfolding out by (simp_all add: sendJson_fields JSON_stringify_def)
  with i(2) show "\<exists>i. 1 < count_list (map contribution_id ?cs) i \<and>
            returned ?h = Inr True \<and> statusCode (res ?h) = 500 \<and>
            body (res ?h) = body res0 @
              [JsonText (JObj [(''error'', JStr (composition_message (CompositionError i)))])]"
    by blast
qed

lemmas example_simps = example_runtime_def duplicate_plugin_runtime_def broken_config_runtime_def
  example_URL_def SCHEMA_PATH_def fresh_response_def

lemmas example_contribution_simps = normalize_def contribution_of_plugin_def
  contribution_of_channel_def plugin_arg_of_def channel_arg_of_def voice_plugin_def
  telegram_channel_def

text \<open>A registry that lists the voice plugin twice.\<close>

theorem duplicate_id_fails_composition_witness:
  "\<not> distinct (map contribution_id
        (normalize (map plugin_arg_of [voice_plugin, voice_plugin])
           (map channel_arg_of [telegram_channel])))
   \<and> (\<exists>i. compose (JObj [])
             (normalize (map plugin_arg_of [voice_plugin, voice_plugin])
                (map channel_arg_of [telegram_channel])) = Inl (CompositionError i)
          \<and> suffix i (composition_message (CompositionError i)))
   \<and> (\<exists>i. statusCode (res (handleConfigSchemaHttpRequest duplicate_plugin_runtime
               \<lparr>req_method = Some ''GET'', req_url = Some ''/openclaw.schema.json''\<rparr>
               fresh_response)) = 500
          \<and> body (res (handleConfigSchemaHttpRequest duplicate_plugin_runtime
               \<lparr>req_method = Some ''GET'', req_url = Some ''/openclaw.schema.json''\<rparr>
               fresh_response)) =
             [JsonText (JObj [(''error'', JStr (composition_message (CompositionError i)))])])"
proof -
  let ?cs = "normalize (map plugin_arg_of [voice_plugin, voice_plugin])
           (map channel_arg_of [telegram_channel])"
  let ?req = "\<lparr>req_method = Some ''GET'', req_url = Some ''/openclaw.schema.json''\<rparr>"
  have nd: "\<not> distinct (map contribution_id ?cs)"
    by (simp add: example_contribution_simps)
  have m: "req_method ?req = Some ''GET''"
    by simp
  have u: "newURL duplicate_plugin_runtime
       (case req_url ?req of None \<Rightarrow> ''/'' | Some t \<Rightarrow> t) ''http://localhost'' =
       Inr \<lparr>pathname = ''/openclaw.schema.json'', search = []\<rparr>"
    by (simp add: example_simps)
  have p: "pathname \<lparr>pathname = ''/openclaw.schema.json'', search = []\<rparr> = SCHEMA_PATH"
    by (simp add: SCHEMA_PATH_def)
  have c: "loadConfig duplicate_plugin_runtime = Inr ()"
    "resolveDefaultAgentId duplicate_plugin_runtime () = Inr ''main''"
    "resolveAgentWorkspaceDir duplicate_plugin_runtime () ''main'' = Inr ''/home/agent/workspace''"
    "loadOpenClawPlugins duplicate_plugin_runtime () ''/home/agent/workspace'' =
       Inr [voice_plugin, voice_plugin]"
    "listChannelPlugins duplicate_plugin_runtime = Inr [telegram_channel]"
    "buildConfigSchema duplicate_plugin_runtime = buildConfigSchema_spec (JObj []) example_layout"
    by (simp_all add: example_simps)
  note t = duplicate_id_fails_composition
    [of ?cs "JObj []" ?req duplicate_plugin_runtime
        "\<lparr>pathname = ''/openclaw.schema.json'', search = []\<rparr>" "()" "''main''"
        "''/home/agent/workspace''" "[voice_plugin, voice_plugin]" "[telegram_channel]"
        example_layout fresh_response]
  have b: "body fresh_response = []"
    by (simp add: fresh_response_def)
  from t nd m u p c b show ?thesis
    by (simp only: simp_thms append_Nil) blast
qed

text \<open>
  Inside the \<^verbatim>\<open>try\<close> block every failure is caught: the handler returns true and the
  response is the 500 error object.
\<close>

lemma get_failure_becomes_500:
  assumes "req_method req = Some ''GET''"
      and "newURL rt (case req_url req of None \<Rightarrow> ''/'' | Some t \<Rightarrow> t) ''http://localhost'' = Inr u"
      and "pathname u = SCHEMA_PATH"
      and "snd (load_and_build rt) = Inl e"
  shows "returned (handleConfigSchemaHttpRequest rt req res0) = Inr True"
    and "res (handleConfigSchemaHttpRequest rt req res0) =
           sendJson res0 500 (JObj [(''error'', JStr (error_text e))])"
  using assms(4) get_request_outcome [OF assms(1,2,3), of res0]
  by (cases "load_and_build rt"; simp)+

subsection \<open>Failures\<close>

text \<open>
  Claim C5 says that the handler never lets an exception escape, also for a request with a
  malformed URL. The URL is parsed at line 25, before the \<^verbatim>\<open>try\<close> block: when the
  \<^verbatim>\<open>URL\<close> constructor throws for a GET or HEAD request, the handler throws that same
  value, returns nothing and leaves the response untouched.
\<close>

theorem malformed_url_escapes:
  assumes "req_method req = Some ''GET'' \<or> req_method req = Some ''HEAD''"
      and "newURL rt (case req_url req of None \<Rightarrow> ''/'' | Some t \<Rightarrow> t) ''http://localhost'' = Inl e"
  shows "handleConfigSchemaHttpRequest rt req res0 =
           \<lparr>returned = Inl e, res = res0, invoked = []\<rparr>"
  using assms by (auto simp add: handleConfigSchemaHttpRequest_def)

text \<open>The request target \<^verbatim>\<open>//\<close> has an empty host, and the constructor throws.\<close>

theorem malformed_url_escapes_witness:
  "newURL example_runtime ''//'' ''http://localhost'' = Inl (ErrorInstance ''Invalid URL'')
   \<and> handleConfigSchemaHttpRequest example_runtime
       \<lparr>req_method = Some ''GET'', req_url = Some ''//''\<rparr> fresh_response =
     \<lparr>returned = Inl (ErrorInstance ''Invalid URL''), res = fresh_response, invoked = []\<rparr>"
proof -
  let ?req = "\<lparr>req_method = Some ''GET'', req_url = Some ''//''\<rparr>"
  have m: "req_method ?req = Some ''GET'' \<or> req_method ?req = Some ''HEAD''"
    by simp
  have u: "newURL example_runtime (case req_url ?req of None \<Rightarrow> ''/'' | Some t \<Rightarrow> t)
       ''http://localhost'' = Inl (ErrorInstance ''Invalid URL'')"
    by (simp add: example_runtime_def example_URL_def)
  from malformed_url_escapes [OF m u, of fresh_response] u show ?thesis
    by simp
qed

subsection \<open>The HEAD branch\<close>

text \<open>
  Claim C8. For a HEAD request whose URL has the schema path, whatever the collaborators
  would do, the handler returns true and the response has status 200 and the JSON content
  type, is ended, and has no body written to it.
\<close>

theorem head_request_response:
  assumes "req_method req = Some ''HEAD''"
      and "newURL rt (case req_url req of None \<Rightarrow> ''/'' | Some t \<Rightarrow> t) ''http://localhost'' = Inr u"
      and "pathname u = SCHEMA_PATH"
  shows "returned (handleConfigSchemaHttpRequest rt req res0) = Inr True \<and>
         statusCode (res (handleConfigSchemaHttpRequest rt req res0)) = 200 \<and>
         map_of (headers (res (handleConfigSchemaHttpRequest rt req res0))) ''Content-Type'' =
           Some ''application/json; charset=utf-8'' \<and>
         body (res (handleConfigSchemaHttpRequest rt req res0)) = body res0 \<and>
         ended (res (handleConfigSchemaHttpRequest rt req res0))"
  using assms
  by (simp add: handleConfigSchemaHttpRequest_def end_response_def setHeader_def update_conv')

text \<open>A HEAD request on a fresh response: the body stays empty.\<close>

theorem head_request_response_witness:
  "returned (handleConfigSchemaHttpRequest example_runtime
       \<lparr>req_method = Some ''HEAD'', req_url = Some ''/openclaw.schema.json''\<rparr> fresh_response)
     = Inr True
   \<and> statusCode (res (handleConfigSchemaHttpRequest example_runtime
       \<lparr>req_method = Some ''HEAD'', req_url = Some ''/openclaw.schema.json''\<rparr> fresh_response))
     = 200
   \<and> map_of (headers (res (handleConfigSchemaHttpRequest example_runtime
       \<lparr>req_method = Some ''HEAD'', req_url = Some ''/openclaw.schema.json''\<rparr> fresh_response)))
       ''Content-Type'' = Some ''application/json; charset=utf-8''
   \<and> body (res (handleConfigSchemaHttpRequest example_runtime
       \<lparr>req_method = Some ''HEAD'', req_url = Some ''/openclaw.schema.json''\<rparr> fresh_response))
     = []"
proof -
  let ?req = "\<lparr>req_method = Some ''HEAD'', req_url = Some ''/openclaw.schema.json''\<rparr>"
  have m: "req_method ?req = Some ''HEAD''"
    by simp
  have u: "newURL example_runtime (case req_url ?req of None \<Rightarrow> ''/'' | Some t \<Rightarrow> t)
       ''http://localhost'' = Inr \<lparr>pathname = ''/openclaw.schema.json'', search = []\<rparr>"
    by (simp add: example_simps)
  have p: "pathname \<lparr>pathname = ''/openclaw.schema.json'', search = []\<rparr> = SCHEMA_PATH"
    by (simp add: SCHEMA_PATH_def)
  have b: "body fresh_response = []"
    by (simp add: fresh_response_def)
  from head_request_response [OF m u p, of fresh_response] b show ?thesis
    by simp
qed

text \<open>
  Claim C10. A HEAD request on the schema path invokes no collaborator: none of
  configuration loading, workspace resolution, plugin loading, channel listing and schema
  building runs, and the outcome is the same in every runtime with the same \<^verbatim>\<open>URL\<close>
  constructor; so it is 200 also where the GET request gives 500.
\<close>

theorem head_invokes_no_collaborator:
  assumes "req_method req = Some ''HEAD''"
      and "newURL rt (case req_url req of None \<Rightarrow> ''/'' | Some t \<Rightarrow> t) ''http://localhost'' = Inr u"
      and "pathname u = SCHEMA_PATH"
  shows "invoked (handleConfigSchemaHttpRequest rt req res0) = [] \<and>
         returned (handleConfigSchemaHttpRequest rt req res0) = Inr True \<and>
         statusCode (res (handleConfigSchemaHttpRequest rt req res0)) = 200 \<and>
         (\<forall>rt'. newURL rt' = newURL rt \<longrightarrow>
            handleConfigSchemaHttpRequest rt' req res0 = handleConfigSchemaHttpRequest rt req res0)"
  using assms
  by (simp add: handleConfigSchemaHttpRequest_def end_response_def setHeader_def)

text \<open>With a configuration that does not load, GET gives 500 and HEAD gives 200.\<close>

theorem head_invokes_no_collaborator_witness:
  "snd (load_and_build broken_config_runtime) = Inl (ErrorInstance ''config not found'')
   \<and> statusCode (res (handleConfigSchemaHttpRequest broken_config_runtime
       \<lparr>req_method = Some ''GET'', req_url = Some ''/openclaw.schema.json''\<rparr> fresh_response))
     = 500
   \<and> invoked (handleConfigSchemaHttpRequest broken_config_runtime
       \<lparr>req_method = Some ''HEAD'', req_url = Some ''/openclaw.schema.json''\<rparr> fresh_response)
     = []
   \<and> statusCode (res (handleConfigSchemaHttpRequest broken_config_runtime
       \<lparr>req_method = Some ''HEAD'', req_url = Some ''/openclaw.schema.json''\<rparr> fresh_response))
     = 200
   \<and> handleConfigSchemaHttpRequest example_runtime
       \<lparr>req_method = Some ''HEAD'', req_url = Some ''/openclaw.schema.json''\<rparr> fresh_response
     = handleConfigSchemaHttpRequest broken_config_runtime
       \<lparr>req_method = Some ''HEAD'', req_url = Some ''/openclaw.schema.json''\<rparr> fresh_response"
proof -
  let ?req = "\<lparr>req_method = Some ''HEAD'', req_url = Some ''/openclaw.schema.json''\<rparr>"
  let ?get = "\<lparr>req_method = Some ''GET'', req_url = Some ''/openclaw.schema.json''\<rparr>"
  have m: "req_method ?req = Some ''HEAD''"
    by simp
  have u: "newURL broken_config_runtime (case req_url ?req of None \<Rightarrow> ''/'' | Some t \<Rightarrow> t)
       ''http://localhost'' = Inr \<lparr>pathname = ''/openclaw.schema.json'', search = []\<rparr>"
    by (simp add: example_simps)
  have p: "pathname \<lparr>pathname = ''/openclaw.schema.json'', search = []\<rparr> = SCHEMA_PATH"
    by (simp add: SCHEMA_PATH_def)
  have same: "newURL example_runtime = newURL broken_config_runtime"
    by (simp add: example_simps)
  have l: "snd (load_and_build broken_config_runtime) = Inl (ErrorInstance ''config not found'')"
    by (simp add: load_and_build_def example_simps)
  have g: "statusCode (res (handleConfigSchemaHttpRequest broken_config_runtime ?get fresh_response))
      = 500"
    by (simp add: handleConfigSchemaHttpRequest_def load_and_build_def example_simps
        sendJson_fields)
  from head_invokes_no_collaborator [OF m u p, of fresh_response] same l g show ?thesis
    by blast
qed

subsection \<open>Requests that do not match\<close>

text \<open>
  Claim C9. A request whose method is neither GET nor HEAD, or whose URL has another
  pathname than the schema path, is not handled: the handler returns false, the response is
  untouched and no collaborator runs. Only the pathname of the parsed URL decides, so a GET
  or HEAD request whose pathname is the schema path is handled whatever its query; a request
  without a URL is treated as the request for \<^verbatim>\<open>/\<close> and is not handled.
\<close>

theorem unmatched_request_not_handled:
  "(req_method req \<noteq> Some ''GET'' \<and> req_method req \<noteq> Some ''HEAD'' \<longrightarrow>
      handleConfigSchemaHttpRequest rt req res0 =
        \<lparr>returned = Inr False, res = res0, invoked = []\<rparr>)
   \<and> (\<forall>u. newURL rt (case req_url req of None \<Rightarrow> ''/'' | Some t \<Rightarrow> t) ''http://localhost'' = Inr u \<and>
          pathname u \<noteq> SCHEMA_PATH \<longrightarrow>
      handleConfigSchemaHttpRequest rt req res0 =
        \<lparr>returned = Inr False, res = res0, invoked = []\<rparr>)
   \<and> (\<forall>u. (req_method req = Some ''GET'' \<or> req_method req = Some ''HEAD'') \<and>
          newURL rt (case req_url req of None \<Rightarrow> ''/'' | Some t \<Rightarrow> t) ''http://localhost'' = Inr u \<and>
          pathname u = SCHEMA_PATH \<longrightarrow>
      returned (handleConfigSchemaHttpRequest rt req res0) = Inr True)
   \<and> (req_url req = None \<longrightarrow>
      handleConfigSchemaHttpRequest rt req res0 =
        handleConfigSchemaHttpRequest rt (req\<lparr>req_url := Some ''/''\<rparr>) res0)
   \<and> (\<forall>u. req_url req = None \<and> newURL rt ''/'' ''http://localhost'' = Inr u \<and> pathname u = ''/'' \<longrightarrow>
      handleConfigSchemaHttpRequest rt req res0 =
        \<lparr>returned = Inr False, res = res0, invoked = []\<rparr>)"
proof (intro conjI allI impI)
  assume "req_method req \<noteq> Some ''GET'' \<and> req_method req \<noteq> Some ''HEAD''"
  then show "handleConfigSchemaHttpRequest rt req res0 =
        \<lparr>returned = Inr False, res = res0, invoked = []\<rparr>"
    by (simp add: handleConfigSchemaHttpRequest_def)
next
  fix u
  assume "newURL rt (case req_url req of None \<Rightarrow> ''/'' | Some t \<Rightarrow> t) ''http://localhost'' = Inr u \<and>
          pathname u \<noteq> SCHEMA_PATH"
  then show "handleConfigSchemaHttpRequest rt req res0 =
        \<lparr>returned = Inr False, res = res0, invoked = []\<rparr>"
    by (simp add: handleConfigSchemaHttpRequest_def)
next
  fix u
  assume "(req_method req = Some ''GET'' \<or> req_method req = Some ''HEAD'') \<and>
          newURL rt (case req_url req of None \<Rightarrow> ''/'' | Some t \<Rightarrow> t) ''http://localhost'' = Inr u \<and>
          pathname u = SCHEMA_PATH"
  then show "returned (handleConfigSchemaHttpRequest rt req res0) = Inr True"
    by (auto simp add: handleConfigSchemaHttpRequest_def split: prod.splits sum.splits)
next
  assume "req_url req = None"
  then show "handleConfigSchemaHttpRequest rt req res0 =
        handleConfigSchemaHttpRequest rt (req\<lparr>req_url := Some ''/''\<rparr>) res0"
    by (simp add: handleConfigSchemaHttpRequest_def)
next
  fix u
  assume "req_url req = None \<and> newURL rt ''/'' ''http://localhost'' = Inr u \<and> pathname u = ''/''"
  then show "handleConfigSchemaHttpRequest rt req res0 =
        \<lparr>returned = Inr False, res = res0, invoked = []\<rparr>"
    by (simp add: handleConfigSchemaHttpRequest_def SCHEMA_PATH_def)
qed

text \<open>A POST, another path, the schema path with a query, and a request without a URL.\<close>

theorem unmatched_request_not_handled_witness:
  "handleConfigSchemaHttpRequest example_runtime
     \<lparr>req_method = Some ''POST'', req_url = Some ''/openclaw.schema.json''\<rparr> fresh_response =
     \<lparr>returned = Inr False, res = fresh_response, invoked = []\<rparr>
   \<and> handleConfigSchemaHttpRequest example_runtime
     \<lparr>req_method = Some ''GET'', req_url = Some ''/health''\<rparr> fresh_response =
     \<lparr>returned = Inr False, res = fresh_response, invoked = []\<rparr>
   \<and> returned (handleConfigSchemaHttpRequest example_runtime
     \<lparr>req_method = Some ''GET'', req_url = Some ''/openclaw.schema.json?x=1''\<rparr> fresh_response) =
     Inr True
   \<and> handleConfigSchemaHttpRequest example_runtime
     \<lparr>req_method = Some ''GET'', req_url = None\<rparr> fresh_response =
     \<lparr>returned = Inr False, res = fresh_response, invoked = []\<rparr>"
proof -
  have 1: "handleConfigSchemaHttpRequest example_runtime
     \<lparr>req_method = Some ''POST'', req_url = Some ''/openclaw.schema.json''\<rparr> fresh_response =
     \<lparr>returned = Inr False, res = fresh_response, invoked = []\<rparr>"
    using unmatched_request_not_handled
      [of "\<lparr>req_method = Some ''POST'', req_url = Some ''/openclaw.schema.json''\<rparr>"
          example_runtime fresh_response]
    by simp
  have 2: "handleConfigSchemaHttpRequest example_runtime
     \<lparr>req_method = Some ''GET'', req_url = Some ''/health''\<rparr> fresh_response =
     \<lparr>returned = Inr False, res = fresh_response, invoked = []\<rparr>"
    using unmatched_request_not_handled
      [of "\<lparr>req_method = Some ''GET'', req_url = Some ''/health''\<rparr>"
          example_runtime fresh_response]
    by (simp add: example_runtime_def example_URL_def SCHEMA_PATH_def)
  have 3: "returned (handleConfigSchemaHttpRequest example_runtime
     \<lparr>req_method = Some ''GET'', req_url = Some ''/openclaw.schema.json?x=1''\<rparr> fresh_response) =
     Inr True"
    using unmatched_request_not_handled
      [of "\<lparr>req_method = Some ''GET'', req_url = Some ''/openclaw.schema.json?x=1''\<rparr>"
          example_runtime fresh_response]
    by (simp add: example_runtime_def example_URL_def SCHEMA_PATH_def)
  have 4: "handleConfigSchemaHttpRequest example_runtime
     \<lparr>req_method = Some ''GET'', req_url = None\<rparr> fresh_response =
     \<lparr>returned = Inr False, res = fresh_response, invoked = []\<rparr>"
    using unmatched_request_not_handled
      [of "\<lparr>req_method = Some ''GET'', req_url = None\<rparr>" example_runtime fresh_response]
    by (simp add: example_runtime_def example_URL_def SCHEMA_PATH_def)
  from 1 2 3 4 show ?thesis
    by blast
qed

end
